theory Spec2Isabelle
  imports Complex_Main
begin

section \<open>Python values\<close>

text \<open>
  A Python float is a finite double (represented by the real number it denotes), an
  infinity or a NaN. \<open>json.loads\<close> accepts \<open>NaN\<close>, \<open>Infinity\<close> and \<open>-Infinity\<close>, and
  \<open>float\<close> of the string \<open>nan\<close> succeeds, so the non-finite values reach the assessor.
\<close>

datatype pyfloat = Fin real | PInf | NInf | NaN

text \<open>
  The values \<open>json.loads\<close> produces. A \<open>dict\<close> is an association list in insertion order;
  \<open>None\<close> is \<open>JNull\<close>.
\<close>

datatype json =
    JNull
  | JBool bool
  | JInt int
  | JFloat pyfloat
  | JStr string
  | JList "json list"
  | JObj "(string \<times> json) list"

type_synonym dict = "(string \<times> json) list"

text \<open>Exceptions, each with the text \<open>str(e)\<close> gives.\<close>

datatype exn =
    JSONDecodeError string
  | AttributeError string
  | TypeError string
  | ValueError string
  | OverflowError string
  | HTTPError string
  | OtherError string

fun exn_str :: "exn \<Rightarrow> string" where
  "exn_str (JSONDecodeError m) = m"
| "exn_str (AttributeError m) = m"
| "exn_str (TypeError m) = m"
| "exn_str (ValueError m) = m"
| "exn_str (OverflowError m) = m"
| "exn_str (HTTPError m) = m"
| "exn_str (OtherError m) = m"

text \<open>\<open>except json.JSONDecodeError\<close> catches this class only.\<close>

fun is_JSONDecodeError :: "exn \<Rightarrow> bool" where
  "is_JSONDecodeError (JSONDecodeError m) = True"
| "is_JSONDecodeError e = False"

subsection \<open>Dictionaries\<close>

text \<open>\<open>d.get(k)\<close>: the value, or \<open>None\<close> when the key is absent.\<close>

definition dict_get :: "dict \<Rightarrow> string \<Rightarrow> json" where
  "dict_get d k = (case map_of d k of None \<Rightarrow> JNull | Some v \<Rightarrow> v)"

text \<open>\<open>d[k] = v\<close>: an existing key keeps its place, a new one goes last.\<close>

fun dict_set :: "dict \<Rightarrow> string \<Rightarrow> json \<Rightarrow> dict" where
  "dict_set [] k v = [(k, v)]"
| "dict_set ((k', v') # d) k v =
     (if k' = k then (k, v) # d else (k', v') # dict_set d k v)"

text \<open>\<open>k in d\<close>.\<close>

definition dict_has :: "dict \<Rightarrow> string \<Rightarrow> bool" where
  "dict_has d k = (map_of d k \<noteq> None)"

subsection \<open>Truth values and \<open>or\<close>\<close>

fun truthy :: "json \<Rightarrow> bool" where
  "truthy JNull = False"
| "truthy (JBool b) = b"
| "truthy (JInt i) = (i \<noteq> 0)"
| "truthy (JFloat f) = (f \<noteq> Fin 0)"
| "truthy (JStr s) = (s \<noteq> [])"
| "truthy (JList xs) = (xs \<noteq> [])"
| "truthy (JObj d) = (d \<noteq> [])"

text \<open>\<open>a or b\<close> is \<open>a\<close> when \<open>a\<close> is truthy and \<open>b\<close> otherwise, whatever \<open>b\<close> is.\<close>

definition py_or :: "json \<Rightarrow> json \<Rightarrow> json" where
  "py_or a b = (if truthy a then a else b)"

subsection \<open>Float comparison, \<open>min\<close> and \<open>max\<close>\<close>

text \<open>\<open>a < b\<close> on floats: every comparison with a NaN is false.\<close>

fun fl_less :: "pyfloat \<Rightarrow> pyfloat \<Rightarrow> bool" where
  "fl_less (Fin a) (Fin b) = (a < b)"
| "fl_less (Fin a) PInf = True"
| "fl_less (Fin a) NInf = False"
| "fl_less (Fin a) NaN = False"
| "fl_less PInf b = False"
| "fl_less NInf (Fin b) = True"
| "fl_less NInf PInf = True"
| "fl_less NInf NInf = False"
| "fl_less NInf NaN = False"
| "fl_less NaN b = False"

text \<open>
  The builtin \<open>min(a, b)\<close> keeps \<open>a\<close> unless \<open>b < a\<close>; \<open>max(a, b)\<close> keeps \<open>a\<close> unless
  \<open>b > a\<close>.
\<close>

definition py_min :: "pyfloat \<Rightarrow> pyfloat \<Rightarrow> pyfloat" where
  "py_min a b = (if fl_less b a then b else a)"

definition py_max :: "pyfloat \<Rightarrow> pyfloat \<Rightarrow> pyfloat" where
  "py_max a b = (if fl_less a b then b else a)"

text \<open>
  \<open>round(x)\<close> of a finite float: the nearest integer, a tie going to the even one.
\<close>

definition py_round :: "real \<Rightarrow> int" where
  "py_round x =
     (let f = \<lfloor>x\<rfloor>; d = x - of_int f
      in if d < 1 / 2 then f else if 1 / 2 < d then f + 1
         else if even f then f else f + 1)"

subsection \<open>Strings\<close>

text \<open>
  A \<open>str\<close> is a list of characters; a \<open>char\<close> stands for a code point below 256.
  \<open>str.isspace\<close> on these: tab to carriage return, the four separators, the space,
  NEL and the no-break space.
\<close>

definition dq :: string where
  "dq = [CHR 0x22]"

definition py_isspace :: "char \<Rightarrow> bool" where
  "py_isspace c =
     (let n = (of_char c :: nat)
      in (9 \<le> n \<and> n \<le> 13) \<or> (28 \<le> n \<and> n \<le> 32) \<or> n = 133 \<or> n = 160)"

definition py_strip :: "string \<Rightarrow> string" where
  "py_strip s = rev (dropWhile py_isspace (rev (dropWhile py_isspace s)))"

definition startswith :: "string \<Rightarrow> string \<Rightarrow> bool" where
  "startswith s p = (take (length p) s = p)"

text \<open>
  \<open>s.split(sep)\<close> for a non-empty separator: the pieces between the occurrences of
  \<open>sep\<close>, found from the left without overlap. (Python raises on an empty separator;
  the assessor only splits on the fence.)
\<close>

function py_split_from :: "string \<Rightarrow> string \<Rightarrow> string \<Rightarrow> string list" where
  "py_split_from sep acc s =
     (if s = [] then [rev acc]
      else if sep \<noteq> [] \<and> startswith s sep
        then rev acc # py_split_from sep [] (drop (length sep) s)
      else py_split_from sep (hd s # acc) (tl s))"
  by pat_completeness auto
termination
  by (relation "measure (\<lambda>(sep, acc, s). length s)") auto

definition py_split :: "string \<Rightarrow> string \<Rightarrow> string list" where
  "py_split s sep = py_split_from sep [] s"

text \<open>\<open>sep.join(xs)\<close>.\<close>

fun py_join :: "string \<Rightarrow> string list \<Rightarrow> string" where
  "py_join sep [] = []"
| "py_join sep [x] = x"
| "py_join sep (x # y # ys) = x @ sep @ py_join sep (y # ys)"

text \<open>
  \<open>xs[:n]\<close>: the first \<open>n\<close> items, and for a negative \<open>n\<close> all but the last \<open>-n\<close>.
\<close>

definition slice_to :: "'a list \<Rightarrow> int \<Rightarrow> 'a list" where
  "slice_to xs n =
     (if 0 \<le> n then take (nat n) xs else take (length xs - nat (- n)) xs)"

section \<open>The environment\<close>

text \<open>
  What the assessor calls and does not define: the \<open>json\<close> module, \<open>urlparse\<close>, float
  conversion and arithmetic, the Bedrock client, \<open>requests.post\<close> and the database
  session. A call to a provider is given its number, so that a provider may answer
  the same request differently each time. Float arithmetic is on finite values: the
  assessor only applies it to scores in the unit interval.
\<close>

record response =
  status_code :: nat
  json_body :: "exn + json"

record env =
  json_loads :: "string \<Rightarrow> exn + json"
  json_dumps :: "json \<Rightarrow> string"
  urlparse_netloc :: "string \<Rightarrow> exn + string"
  float_of_int :: "int \<Rightarrow> exn + pyfloat"
  float_of_str :: "string \<Rightarrow> exn + pyfloat"
  float_sum :: "real list \<Rightarrow> real"
  float_div :: "real \<Rightarrow> int \<Rightarrow> real"
  float_mul :: "real \<Rightarrow> int \<Rightarrow> real"
  bedrock_converse :: "nat \<Rightarrow> string \<Rightarrow> int \<Rightarrow> exn + string"
  requests_post :: "nat \<Rightarrow> string \<Rightarrow> int \<Rightarrow> exn + response"
  session_commit :: "nat \<Rightarrow> exn option"

text \<open>The calls made so far.\<close>

record world =
  llm_calls :: nat
  http_calls :: nat
  commits :: nat

section \<open>The factor query\<close>

definition FACTOR_KEYS :: "string list" where
  "FACTOR_KEYS =
     [''tech_stack'', ''business_age_months'', ''merchant_category'', ''company_scale'',
      ''integration_readiness_score'', ''transaction_intent_score'',
      ''digital_maturity_score'', ''web_presence_quality'', ''fraud_risk_pattern_score'',
      ''traffic_check'', ''brand_search_volume'']"

definition keywords_map :: "(string \<times> string list) list" where
  "keywords_map =
     [(''tech_stack'', [''built on'', ''powered by'', ''Shopify'', ''WooCommerce'',
         ''WordPress'', ''Magento'', ''bigcommerce'', ''platform'']),
      (''business_age_months'', [''founded'', ''established'', ''since'', ''founded in'',
         ''incorporated'', ''year'']),
      (''merchant_category'', [''subscription'', ''SaaS'', ''services'', ''e-commerce'',
         ''online store'', ''marketplace'']),
      (''company_scale'', [''employees'', ''team of'', ''headcount'', ''startup'',
         ''enterprise'', ''SMB'', ''small business'']),
      (''integration_readiness_score'', [''API'', ''integrations'', ''developer docs'',
         ''plugins'', ''extensions'', ''Zapier'', ''webhooks'']),
      (''transaction_intent_score'', [''checkout'', ''buy now'', ''pricing'',
         ''add to cart'', ''purchase'', ''orders'', ''payment'']),
      (''digital_maturity_score'', [''analytics'', ''Google Analytics'', ''tracking'',
         ''mobile friendly'', ''responsive'', ''PWA'', ''SEO'']),
      (''web_presence_quality'', [''press'', ''blog'', ''mentions'', ''backlinks'',
         ''domain authority'', ''traffic'', ''social'']),
      (''fraud_risk_pattern_score'', [''chargeback'', ''fraud'', ''complaint'', ''scam'',
         ''refund'', ''lawsuit'', ''security breach'']),
      (''traffic_check'', [''monthly visits'', ''traffic'', ''SimilarWeb'', ''Alexa'',
         ''semrush'', ''traffic estimate'']),
      (''brand_search_volume'', [''search volume'', ''brand searches'', ''Google Trends'',
         ''searches for''])]"

text \<open>\<open>f'"{k}"' if " " in k else k\<close>.\<close>

definition quote_kw :: "string \<Rightarrow> string" where
  "quote_kw k = (if CHR '' '' \<in> set k then dq @ k @ dq else k)"

text \<open>\<open>keywords_map.get(factor, [factor, "website", "reviews"])[:6]\<close>.\<close>

definition factor_keywords :: "string \<Rightarrow> string list" where
  "factor_keywords factor =
     take 6 (case map_of keywords_map factor of
               Some ks \<Rightarrow> ks
             | None \<Rightarrow> [factor, ''website'', ''reviews''])"

definition seo_query_for_factor ::
  "env \<Rightarrow> string \<Rightarrow> string option \<Rightarrow> string option \<Rightarrow> string \<Rightarrow> string" where
  "seo_query_for_factor e name industry source_url factor =
     (let quoted_name = (if name \<noteq> [] then dq @ name @ dq else []);
          domain = (case source_url of
                      None \<Rightarrow> []
                    | Some u \<Rightarrow>
                        if u = [] then []
                        else (case urlparse_netloc e u of Inr d \<Rightarrow> d | Inl x \<Rightarrow> u));
          kws = factor_keywords factor;
          or_clause = py_join '' OR '' (map quote_kw kws);
          parts = filter (\<lambda>p. p \<noteq> []) [quoted_name, or_clause];
          q = ''('' @ py_join '' '' parts @ '')'';
          q1 = (case industry of
                  None \<Rightarrow> q
                | Some i \<Rightarrow> if i \<noteq> [] then q @ '' '' @ i else q);
          q2 = (if domain \<noteq> [] then q1 @ '' site:'' @ domain else q1)
      in q2)"

section \<open>The search client\<close>

text \<open>\<open>resp.raise_for_status()\<close> raises for the status codes 400 to 599.\<close>

definition raise_for_status :: "response \<Rightarrow> exn option" where
  "raise_for_status r =
     (if 400 \<le> status_code r \<and> status_code r < 600
      then Some (HTTPError ''HTTP error'') else None)"

text \<open>
  \<open>results[:num_results]\<close>: a list and a string can be sliced, nothing else that
  \<open>resp.json()\<close> returns can.
\<close>

definition py_slice :: "json \<Rightarrow> int \<Rightarrow> exn + json" where
  "py_slice v n =
     (case v of
        JList xs \<Rightarrow> Inr (JList (slice_to xs n))
      | JStr s \<Rightarrow> Inr (JStr (slice_to s n))
      | _ \<Rightarrow> Inl (TypeError ''object is not subscriptable''))"

text \<open>The body of the \<open>try\<close> in \<open>SerperClient.search\<close>, after the request was sent.\<close>

definition search_try :: "env \<Rightarrow> nat \<Rightarrow> string \<Rightarrow> int \<Rightarrow> exn + json" where
  "search_try e call q num_results =
     (case requests_post e call q num_results of
        Inl x \<Rightarrow> Inl x
      | Inr resp \<Rightarrow>
          (case raise_for_status resp of
             Some x \<Rightarrow> Inl x
           | None \<Rightarrow>
               (case json_body resp of
                  Inl x \<Rightarrow> Inl x
                | Inr data \<Rightarrow>
                    (case data of
                       JObj d \<Rightarrow>
                         py_slice
                           (py_or (dict_get d ''organic'')
                              (py_or (dict_get d ''results'') (JList [])))
                           num_results
                     | _ \<Rightarrow> Inl (AttributeError ''object has no attribute get'')))))"

definition SerperClient_search :: "env \<Rightarrow> world \<Rightarrow> string \<Rightarrow> int \<Rightarrow> json \<times> world" where
  "SerperClient_search e w q num_results =
     (case search_try e (http_calls w) q num_results of
        Inl x \<Rightarrow> (JList [], w\<lparr>http_calls := Suc (http_calls w)\<rparr>)
      | Inr r \<Rightarrow> (r, w\<lparr>http_calls := Suc (http_calls w)\<rparr>))"

section \<open>Leads\<close>

text \<open>
  The columns of \<open>Lead\<close> the assessor reads or writes; a nullable column is an option.
\<close>

record lead =
  lead_id :: int
  company_name :: "string option"
  industry :: "string option"
  description :: "string option"
  source_url :: "string option"
  lead_score :: "pyfloat option"
  status :: "string option"
  created_at :: int
  raw_data :: "string option"

text \<open>\<open>x or ""\<close> for a nullable string.\<close>

definition opt_str :: "string option \<Rightarrow> string" where
  "opt_str x = (case x of None \<Rightarrow> [] | Some s \<Rightarrow> s)"

definition opt_json :: "string option \<Rightarrow> json" where
  "opt_json x = (case x of None \<Rightarrow> JNull | Some s \<Rightarrow> JStr s)"

section \<open>Searching for one factor\<close>

text \<open>\<open>for r in results\<close>: the items of a list, the characters of a string, the keys of a dict.\<close>

definition py_iter :: "json \<Rightarrow> exn + json list" where
  "py_iter v =
     (case v of
        JList xs \<Rightarrow> Inr xs
      | JStr s \<Rightarrow> Inr (map (\<lambda>c. JStr [c]) s)
      | JObj d \<Rightarrow> Inr (map (\<lambda>kv. JStr (fst kv)) d)
      | _ \<Rightarrow> Inl (TypeError ''object is not iterable''))"

text \<open>One round of the loop over the results: \<open>r.get\<close> exists on a dict only.\<close>

definition snippet_of :: "string \<Rightarrow> json \<Rightarrow> exn + json" where
  "snippet_of q r =
     (case r of
        JObj d \<Rightarrow>
          Inr (JObj
            [(''query'', JStr q),
             (''title'', py_or (dict_get d ''title'') (py_or (dict_get d ''position'')
                (py_or (dict_get d ''snippet_title'') (JStr [])))),
             (''snippet'', py_or (dict_get d ''snippet'') (py_or (dict_get d ''summary'')
                (py_or (dict_get d ''description'')
                   (py_or (dict_get d ''snippet_text'') (JStr []))))),
             (''link'', py_or (dict_get d ''link'') (py_or (dict_get d ''url'')
                (py_or (dict_get d ''source'') (JStr []))))])
      | _ \<Rightarrow> Inl (AttributeError ''object has no attribute get''))"

fun build_snippets :: "string \<Rightarrow> json list \<Rightarrow> exn + json list" where
  "build_snippets q [] = Inr []"
| "build_snippets q (r # rs) =
     (case snippet_of q r of
        Inl x \<Rightarrow> Inl x
      | Inr s \<Rightarrow>
          (case build_snippets q rs of Inl x \<Rightarrow> Inl x | Inr ss \<Rightarrow> Inr (s # ss)))"

definition factor_query :: "env \<Rightarrow> lead \<Rightarrow> string \<Rightarrow> string" where
  "factor_query e ld factor =
     seo_query_for_factor e (py_strip (opt_str (company_name ld)))
       (Some (py_strip (opt_str (industry ld)))) (source_url ld) factor"

definition search_for_factor ::
  "env \<Rightarrow> world \<Rightarrow> lead \<Rightarrow> string \<Rightarrow> int \<Rightarrow> (exn + json list) \<times> world" where
  "search_for_factor e w ld factor num_results =
     (let q = factor_query e ld factor
      in case SerperClient_search e w q num_results of
           (results, w') \<Rightarrow>
             (case py_iter results of
                Inl x \<Rightarrow> (Inl x, w')
              | Inr rs \<Rightarrow> (build_snippets q rs, w')))"

section \<open>The completion provider and JSON repair\<close>

definition lead_info :: "lead \<Rightarrow> json" where
  "lead_info ld =
     JObj [(''company_name'', opt_json (company_name ld)),
           (''source_url'', opt_json (source_url ld)),
           (''industry'', opt_json (industry ld))]"

definition build_factor_prompt :: "env \<Rightarrow> lead \<Rightarrow> string \<Rightarrow> json list \<Rightarrow> string" where
  "build_factor_prompt e ld factor snippets =
     ''You are an assistant that inspects web search results and extracts one field for a company.\<newline>''
     @ ''Field: '' @ factor @ ''\<newline>''
     @ ''Allowed output: Return a single JSON object with keys: '' @ dq @ factor @ dq
     @ '' and optional '' @ dq @ ''rationale'' @ dq @ ''.\<newline>''
     @ ''If the field is a score, return a float between 0 and 1. If it is a categorical value, return one of the allowed categories.\<newline>''
     @ ''Return ONLY valid JSON (no markdown).\<newline>\<newline>''
     @ ''LEAD:\<newline>'' @ json_dumps e (lead_info ld)
     @ ''\<newline>\<newline>SEARCH_SNIPPETS:\<newline>'' @ json_dumps e (JList snippets) @ ''\<newline>''"

text \<open>
  \<open>generate_text\<close>: one call of the provider; the text of its answer, or the exception
  the client raised.
\<close>

definition generate_text ::
  "env \<Rightarrow> world \<Rightarrow> string \<Rightarrow> int \<Rightarrow> (exn + string) \<times> world" where
  "generate_text e w prompt maxTokens =
     (bedrock_converse e (llm_calls w) prompt maxTokens,
      w\<lparr>llm_calls := Suc (llm_calls w)\<rparr>)"

definition fence :: string where
  "fence = [CHR 0x60, CHR 0x60, CHR 0x60]"

text \<open>
  The cleaning of markdown fences, which \<open>_fallback_to_json_conversion\<close> applies to the
  answer and, with the same statements, to the fixer's answer. (Its \<open>print\<close> calls are
  taken to succeed.)
\<close>

definition clean_fences :: "string \<Rightarrow> string" where
  "clean_fences response_text =
     (let clean_text = py_strip response_text;
          clean_text1 =
            (if startswith clean_text fence then
               (let parts = py_split clean_text fence
                in if 2 \<le> length parts then
                     (let p = parts ! 1
                      in if startswith p ''json'' then drop 4 p else p)
                   else clean_text)
             else clean_text)
      in py_strip clean_text1)"

definition fixer_prompt :: "string \<Rightarrow> string" where
  "fixer_prompt clean_text =
     ''The assistant produced the following response which is intended to be a JSON array of lead objects, ''
     @ ''but it is not valid JSON. Please convert it into a valid JSON array of objects with these keys: ''
     @ ''company_name, industry, description, why_payu, source_url, company_size, lead_score (0-100). ''
     @ ''Preserve as much information as possible from the original output. Return ONLY the JSON array, no explanations.\<newline>\<newline>''
     @ ''RAW_OUTPUT:\<newline>'' @ clean_text"

definition fallback_to_json_conversion ::
  "env \<Rightarrow> world \<Rightarrow> string \<Rightarrow> (exn + json) \<times> world" where
  "fallback_to_json_conversion e w response_text =
     (let clean_text = clean_fences response_text
      in case json_loads e clean_text of
           Inr leads \<Rightarrow> (Inr leads, w)
         | Inl x \<Rightarrow>
             if is_JSONDecodeError x then
               (case generate_text e w (fixer_prompt clean_text) 3000 of
                  (Inl y, w') \<Rightarrow> (Inl y, w')
                | (Inr fixed_text, w') \<Rightarrow> (json_loads e (clean_fences fixed_text), w'))
             else (Inl x, w))"

definition generate_json ::
  "env \<Rightarrow> world \<Rightarrow> string \<Rightarrow> int \<Rightarrow> (exn + json) \<times> world" where
  "generate_json e w prompt maxTokens =
     (case generate_text e w prompt maxTokens of
        (Inl x, w') \<Rightarrow> (Inl x, w')
      | (Inr response, w') \<Rightarrow> fallback_to_json_conversion e w' response)"

section \<open>Assessing a lead\<close>

text \<open>The three dictionaries \<open>assess_lead\<close> fills.\<close>

record factor_state =
  assessment :: dict
  raw_search_snippets :: dict
  rationales :: dict

text \<open>
  The dictionary taken from the provider's answer: the first item of a non-empty list
  when it is a dict, the answer itself when it is a dict, and the empty dict otherwise.
\<close>

definition parsed_factor_of :: "json \<Rightarrow> dict" where
  "parsed_factor_of res =
     (case res of
        JList xs \<Rightarrow>
          (case xs of
             [] \<Rightarrow> []
           | x # rest \<Rightarrow> (case x of JObj d \<Rightarrow> d | _ \<Rightarrow> []))
      | JObj d \<Rightarrow> d
      | _ \<Rightarrow> [])"

text \<open>The lookup of the common keys.\<close>

definition extract_value :: "dict \<Rightarrow> string \<Rightarrow> json" where
  "extract_value parsed_factor factor =
     (let v = dict_get parsed_factor factor
      in if v = JNull then
           py_or (dict_get parsed_factor ''value'')
             (py_or (dict_get parsed_factor ''score'') (dict_get parsed_factor ''result''))
         else v)"

text \<open>What the loop does with a parsed answer.\<close>

definition record_factor :: "factor_state \<Rightarrow> string \<Rightarrow> json \<Rightarrow> factor_state" where
  "record_factor st factor res =
     (let parsed_factor = parsed_factor_of res;
          v = extract_value parsed_factor factor;
          st1 = (if v \<noteq> JNull
                 then st\<lparr>assessment := dict_set (assessment st) factor v\<rparr> else st);
          st2 = (if truthy (dict_get parsed_factor ''rationale'')
                 then st1\<lparr>rationales :=
                        dict_set (rationales st1) factor (dict_get parsed_factor ''rationale'')\<rparr>
                 else st1)
      in st2)"

text \<open>
  One round of the loop over the factors. An exception of the search leaves the loop
  (it is outside the inner \<open>try\<close>); an exception of \<open>generate_json\<close> is the \<open>continue\<close>.
\<close>

definition assess_factor ::
  "env \<Rightarrow> lead \<Rightarrow> string \<Rightarrow> factor_state \<Rightarrow> world \<Rightarrow> (exn + factor_state) \<times> world" where
  "assess_factor e ld factor st w =
     (case search_for_factor e w ld factor 3 of
        (Inl x, w1) \<Rightarrow> (Inl x, w1)
      | (Inr snippets, w1) \<Rightarrow>
          (let st1 = st\<lparr>raw_search_snippets :=
                        dict_set (raw_search_snippets st) factor (JList snippets)\<rparr>
           in case generate_json e w1 (build_factor_prompt e ld factor snippets) 800 of
                (Inl x, w2) \<Rightarrow> (Inr st1, w2)
              | (Inr res, w2) \<Rightarrow> (Inr (record_factor st1 factor res), w2)))"

fun assess_factors ::
  "env \<Rightarrow> lead \<Rightarrow> string list \<Rightarrow> factor_state \<Rightarrow> world \<Rightarrow> (exn + factor_state) \<times> world" where
  "assess_factors e ld [] st w = (Inr st, w)"
| "assess_factors e ld (f # fs) st w =
     (case assess_factor e ld f st w of
        (Inl x, w') \<Rightarrow> (Inl x, w')
      | (Inr st', w') \<Rightarrow> assess_factors e ld fs st' w')"

definition SCORE_KEYS :: "string list" where
  "SCORE_KEYS =
     [''integration_readiness_score'', ''transaction_intent_score'',
      ''digital_maturity_score'', ''web_presence_quality'', ''fraud_risk_pattern_score'',
      ''traffic_check'', ''brand_search_volume'']"

text \<open>
  \<open>float(v)\<close>: of a bool, an int (too large an int raises), a float or a string (one
  that is no number raises); nothing else converts.
\<close>

definition py_float :: "env \<Rightarrow> json \<Rightarrow> exn + pyfloat" where
  "py_float e v =
     (case v of
        JBool b \<Rightarrow> Inr (Fin (if b then 1 else 0))
      | JInt i \<Rightarrow> float_of_int e i
      | JFloat f \<Rightarrow> Inr f
      | JStr s \<Rightarrow> float_of_str e s
      | _ \<Rightarrow> Inl (TypeError ''float() argument must be a string or a real number''))"

text \<open>One round of the normalisation loop, on the assessment and \<open>numeric_scores\<close>.\<close>

definition normalize_key ::
  "env \<Rightarrow> dict \<times> pyfloat list \<Rightarrow> string \<Rightarrow> dict \<times> pyfloat list" where
  "normalize_key e an k =
     (let v = dict_get (fst an) k
      in if v = JNull then an
         else (case py_float e v of
                 Inl x \<Rightarrow> an
               | Inr fv \<Rightarrow>
                   (let fv1 = py_max (Fin 0) (py_min (Fin 1) fv)
                    in (dict_set (fst an) k (JFloat fv1), snd an @ [fv1]))))"

text \<open>The real number a finite float denotes.\<close>

fun fin_val :: "pyfloat \<Rightarrow> real" where
  "fin_val (Fin r) = r"
| "fin_val f = 0"

text \<open>\<open>int(round((sum(numeric_scores) / len(numeric_scores)) * 100)) if numeric_scores else 0\<close>.\<close>

definition lead_score_of :: "env \<Rightarrow> pyfloat list \<Rightarrow> int" where
  "lead_score_of e numeric_scores =
     (if numeric_scores \<noteq> [] then
        py_round (float_mul e
          (float_div e (float_sum e (map fin_val numeric_scores))
             (int (length numeric_scores))) 100)
      else 0)"

text \<open>What follows the loop over the factors.\<close>

definition finish_assessment :: "env \<Rightarrow> factor_state \<Rightarrow> dict" where
  "finish_assessment e st =
     (let an = foldl (normalize_key e) (assessment st, []) SCORE_KEYS;
          a1 = (if \<not> dict_has (fst an) ''lead_score''
                then dict_set (fst an) ''lead_score'' (JInt (lead_score_of e (snd an)))
                else fst an);
          a2 = dict_set a1 ''rationales'' (JObj (rationales st));
          a3 = dict_set a2 ''raw_search_snippets'' (JObj (raw_search_snippets st))
      in a3)"

definition empty_state :: factor_state where
  "empty_state = \<lparr>assessment = [], raw_search_snippets = [], rationales = []\<rparr>"

text \<open>The body of the outer \<open>try\<close>.\<close>

definition assess_lead_try :: "env \<Rightarrow> world \<Rightarrow> lead \<Rightarrow> (exn + dict) \<times> world" where
  "assess_lead_try e w ld =
     (case assess_factors e ld FACTOR_KEYS empty_state w of
        (Inl x, w') \<Rightarrow> (Inl x, w')
      | (Inr st, w') \<Rightarrow> (Inr (finish_assessment e st), w'))"

definition assess_lead :: "env \<Rightarrow> world \<Rightarrow> lead \<Rightarrow> dict \<times> world" where
  "assess_lead e w ld =
     (case assess_lead_try e w ld of
        (Inl x, w') \<Rightarrow> ([(''error'', JStr (exn_str x))], w')
      | (Inr a, w') \<Rightarrow> (a, w'))"

section \<open>Persisting an assessment\<close>

text \<open>\<open>existing["assessment"] = assessment\<close> is possible on a dict only.\<close>

definition py_setitem :: "json \<Rightarrow> string \<Rightarrow> json \<Rightarrow> exn + json" where
  "py_setitem v k x =
     (case v of
        JObj d \<Rightarrow> Inr (JObj (dict_set d k x))
      | _ \<Rightarrow> Inl (TypeError ''object does not support item assignment''))"

text \<open>\<open>isinstance(x, (int, float))\<close>: a bool is an int.\<close>

definition is_number :: "json \<Rightarrow> bool" where
  "is_number x = (case x of JInt i \<Rightarrow> True | JFloat f \<Rightarrow> True | JBool b \<Rightarrow> True | _ \<Rightarrow> False)"

definition existing_of :: "env \<Rightarrow> lead \<Rightarrow> json" where
  "existing_of e ld =
     (case raw_data ld of
        None \<Rightarrow> JObj []
      | Some raw \<Rightarrow>
          if raw = [] then JObj []
          else (case json_loads e raw of
                  Inr v \<Rightarrow> v
                | Inl x \<Rightarrow> JObj [(''raw'', JStr raw)]))"

text \<open>The changes \<open>persist_assessment\<close> makes to the lead before it commits.\<close>

definition persist_try :: "env \<Rightarrow> lead \<Rightarrow> dict \<Rightarrow> exn + lead" where
  "persist_try e ld a =
     (case py_setitem (existing_of e ld) ''assessment'' (JObj a) of
        Inl x \<Rightarrow> Inl x
      | Inr existing \<Rightarrow>
          (let ld1 = ld\<lparr>raw_data := Some (json_dumps e existing)\<rparr>
           in if is_number (dict_get a ''lead_score'') then
                (case py_float e (dict_get a ''lead_score'') of
                   Inl x \<Rightarrow> Inl x
                 | Inr f \<Rightarrow> Inr (ld1\<lparr>lead_score := Some f, status := Some ''assessed''\<rparr>))
              else Inr (ld1\<lparr>status := Some ''assessed''\<rparr>)))"

text \<open>
  The table of leads, and a commit of one changed lead: the row with its key is
  replaced (a lead the table does not hold is added).
\<close>

definition db_store :: "lead \<Rightarrow> lead list \<Rightarrow> lead list" where
  "db_store ld db =
     (if lead_id ld \<in> set (map lead_id db)
      then map (\<lambda>r. if lead_id r = lead_id ld then ld else r) db
      else db @ [ld])"

text \<open>An exception anywhere, the commit included, rolls back: the table is as before.\<close>

definition persist_assessment ::
  "env \<Rightarrow> world \<Rightarrow> lead list \<Rightarrow> lead \<Rightarrow> dict \<Rightarrow> lead list \<times> world" where
  "persist_assessment e w db ld a =
     (case persist_try e ld a of
        Inl x \<Rightarrow> (db, w)
      | Inr ld1 \<Rightarrow>
          (case session_commit e (commits w) of
             None \<Rightarrow> (db_store ld1 db, w\<lparr>commits := Suc (commits w)\<rparr>)
           | Some x \<Rightarrow> (db, w\<lparr>commits := Suc (commits w)\<rparr>)))"

section \<open>Assessing all leads\<close>

text \<open>
  \<open>Lead.status != "assessed"\<close> in SQL: a row without a status does not pass the filter.
\<close>

definition unassessed :: "lead \<Rightarrow> bool" where
  "unassessed r = (case status r of None \<Rightarrow> False | Some s \<Rightarrow> s \<noteq> ''assessed'')"

definition query_unassessed :: "lead list \<Rightarrow> nat option \<Rightarrow> lead list" where
  "query_unassessed db limit =
     (let rows = sort_key created_at (filter unassessed db)
      in case limit of
           None \<Rightarrow> rows
         | Some n \<Rightarrow> if n \<noteq> 0 then take n rows else rows)"

fun assess_each ::
  "env \<Rightarrow> lead list \<Rightarrow> world \<Rightarrow> lead list \<Rightarrow> json list \<times> lead list \<times> world" where
  "assess_each e [] w db = ([], db, w)"
| "assess_each e (ld # lds) w db =
     (case assess_lead e w ld of
        (a, w1) \<Rightarrow>
          (case persist_assessment e w1 db ld a of
             (db1, w2) \<Rightarrow>
               (case assess_each e lds w2 db1 of
                  (results, db2, w3) \<Rightarrow>
                    (JObj [(''lead_id'', JInt (lead_id ld)),
                           (''company_name'', opt_json (company_name ld)),
                           (''assessment'', JObj a)] # results, db2, w3))))"

definition assess_all_leads ::
  "env \<Rightarrow> world \<Rightarrow> lead list \<Rightarrow> nat option \<Rightarrow> json list \<times> lead list \<times> world" where
  "assess_all_leads e w db limit = assess_each e (query_unassessed db limit) w db"

section \<open>Notions of the specification\<close>

text \<open>
  The parts of a factor query as the specification names them, the clamped value of a
  collected score, the normalised scores of an assessment, and small readers of results.
\<close>

definition name_clause :: "string \<Rightarrow> string" where
  "name_clause name = (if name = [] then [] else dq @ name @ dq @ '' '')"

definition industry_part :: "string option \<Rightarrow> string" where
  "industry_part ind =
     (case ind of None \<Rightarrow> [] | Some i \<Rightarrow> if i = [] then [] else '' '' @ i)"

definition site_part :: "env \<Rightarrow> string option \<Rightarrow> string" where
  "site_part e url =
     (case url of
        None \<Rightarrow> []
      | Some u \<Rightarrow>
          if u = [] then []
          else (case urlparse_netloc e u of
                  Inr host \<Rightarrow> if host = [] then [] else '' site:'' @ host
                | Inl x \<Rightarrow> '' site:'' @ u))"

definition is_dict :: "json \<Rightarrow> bool" where
  "is_dict v = (case v of JObj d \<Rightarrow> True | _ \<Rightarrow> False)"

definition clamped_score :: "env \<Rightarrow> json \<Rightarrow> pyfloat option" where
  "clamped_score e v =
     (if v = JNull then None
      else (case py_float e v of
              Inl x \<Rightarrow> None
            | Inr fv \<Rightarrow> Some (py_max (Fin 0) (py_min (Fin 1) fv))))"

definition normalized_scores :: "env \<Rightarrow> dict \<Rightarrow> pyfloat list" where
  "normalized_scores e a = List.map_filter (\<lambda>k. clamped_score e (dict_get a k)) SCORE_KEYS"

definition unit_float :: "pyfloat \<Rightarrow> bool" where
  "unit_float f = (case f of Fin r \<Rightarrow> 0 \<le> r \<and> r \<le> 1 | _ \<Rightarrow> False)"

definition result_lead_ids :: "json list \<Rightarrow> json list" where
  "result_lead_ids rs = map (\<lambda>r. case r of JObj d \<Rightarrow> dict_get d ''lead_id'' | _ \<Rightarrow> JNull) rs"

definition json_len :: "json \<Rightarrow> nat option" where
  "json_len v = (case v of JList xs \<Rightarrow> Some (length xs) | JStr s \<Rightarrow> Some (length s) | _ \<Rightarrow> None)"

section \<open>A sample run\<close>

text \<open>
  An environment for running the definitions: providers that answer by the number of
  the call, the JSON texts they use, and float arithmetic that is exact on the values
  of the run (halves and quarters).
\<close>

definition fenced_F :: string where
  "fenced_F = fence @ ''json\<newline>F\<newline>'' @ fence"

definition demo_text :: "nat \<Rightarrow> string" where
  "demo_text n =
     (if n = 0 then ''T'' else if n = 4 then ''I'' else if n = 5 then ''V''
      else if n = 6 \<or> n = 8 \<or> n = 9 then ''not json''
      else if n = 7 then fenced_F
      else if n = 10 then ''Z'' else if n = 11 then ''O'' else if n = 12 then ''N''
      else ''E'')"

definition demo_loads :: "string \<Rightarrow> exn + json" where
  "demo_loads s =
     (if s = ''T'' then
        Inr (JObj [(''tech_stack'', JStr ''Shopify''), (''lead_score'', JInt 150),
                   (''rationale'', JStr ''built on Shopify'')])
      else if s = ''I'' then Inr (JObj [(''integration_readiness_score'', JFloat (Fin (1 / 2)))])
      else if s = ''V'' then Inr (JObj [(''value'', JInt 3)])
      else if s = ''F'' then Inr (JObj [(''score'', JFloat (Fin (3 / 4)))])
      else if s = ''Z'' then Inr (JObj [(''value'', JInt 0), (''score'', JFloat (Fin (1 / 4)))])
      else if s = ''O'' then Inr (JObj [(''value'', JInt 0)])
      else if s = ''N'' then Inr (JObj [(''brand_search_volume'', JStr ''high'')])
      else if s = ''E'' then Inr (JObj [])
      else Inl (JSONDecodeError ''Expecting value''))"

definition pricing_result :: json where
  "pricing_result =
     JObj [(''title'', JStr ''Acme Pricing''), (''snippet'', JStr ''checkout and pricing page''),
           (''link'', JStr ''https://acme.io/pricing'')]"

definition demo_post :: "nat \<Rightarrow> string \<Rightarrow> int \<Rightarrow> exn + response" where
  "demo_post n q k =
     (if n = 1 then Inr \<lparr>status_code = 500, json_body = Inr JNull\<rparr>
      else if n = 2 then
        Inr \<lparr>status_code = 200, json_body = Inl (JSONDecodeError ''Expecting value'')\<rparr>
      else if n = 3 then Inr \<lparr>status_code = 200, json_body = Inr (JList [])\<rparr>
      else if n = 5 then
        Inr \<lparr>status_code = 200, json_body = Inr (JObj [(''organic'', JList [pricing_result])])\<rparr>
      else Inl (OtherError ''connection refused''))"

definition demo_env :: env where
  "demo_env =
     \<lparr>json_loads = demo_loads,
      json_dumps = (\<lambda>v. ''null''),
      urlparse_netloc =
        (\<lambda>u. if u = ''https://acme.io'' then Inr ''acme.io''
              else Inl (ValueError ''Invalid IPv6 URL'')),
      float_of_int = (\<lambda>i. Inr (Fin (of_int i))),
      float_of_str = (\<lambda>s. Inl (ValueError ''could not convert string to float'')),
      float_sum = sum_list,
      float_div = (\<lambda>x n. x / of_int n),
      float_mul = (\<lambda>x n. x * of_int n),
      bedrock_converse = (\<lambda>n p m. Inr (demo_text n)),
      requests_post = demo_post,
      session_commit = (\<lambda>n. None)\<rparr>"

text \<open>The same, with a search answer whose only item is no dict.\<close>

definition broken_env :: env where
  "broken_env =
     demo_env
       \<lparr>requests_post :=
          (\<lambda>n q k. Inr \<lparr>status_code = 200,
                          json_body = Inr (JObj [(''organic'', JList [JStr ''oops''])])\<rparr>)\<rparr>"

text \<open>The same, with three results to every search.\<close>

definition listing_env :: env where
  "listing_env =
     demo_env
       \<lparr>requests_post :=
          (\<lambda>n q k. Inr \<lparr>status_code = 200,
                          json_body = Inr (JObj [(''organic'',
                            JList [pricing_result, JObj [], JObj [(''url'', JStr ''acme.io'')]])])\<rparr>)\<rparr>"

definition acme :: lead where
  "acme =
     \<lparr>lead_id = 1, company_name = Some ''Acme Co'', industry = Some ''SaaS'',
      description = None, source_url = Some ''https://acme.io'',
      lead_score = Some (Fin 40), status = Some ''new'', created_at = 0, raw_data = None\<rparr>"

definition w0 :: world where
  "w0 = \<lparr>llm_calls = 0, http_calls = 0, commits = 0\<rparr>"

text \<open>What the sample providers give, by the number of the call.\<close>

definition demo_snippets :: "string \<Rightarrow> nat \<Rightarrow> json list" where
  "demo_snippets f n =
     (if n = 5 then
        [JObj [(''query'', JStr (factor_query demo_env acme f)),
               (''title'', JStr ''Acme Pricing''),
               (''snippet'', JStr ''checkout and pricing page''),
               (''link'', JStr ''https://acme.io/pricing'')]]
      else [])"

definition demo_parsed :: "nat \<Rightarrow> exn + json" where
  "demo_parsed n =
     (if n = 6 \<or> n = 7 then demo_loads ''F''
      else if n = 8 then Inl (JSONDecodeError ''Expecting value'')
      else if n = 9 then demo_loads ''Z''
      else demo_loads (demo_text n))"

definition demo_calls :: "nat \<Rightarrow> nat" where
  "demo_calls n = (if n = 6 \<or> n = 8 \<or> n = 9 then Suc (Suc n) else Suc n)"

text \<open>The state after the loop of the sample run, and the assessment it returns.\<close>

definition demo_state :: factor_state where
  "demo_state =
     \<lparr>assessment =
        [(''tech_stack'', JStr ''Shopify''),
         (''integration_readiness_score'', JFloat (Fin (1 / 2))),
         (''transaction_intent_score'', JInt 3),
         (''digital_maturity_score'', JFloat (Fin (3 / 4))),
         (''fraud_risk_pattern_score'', JFloat (Fin (1 / 4))),
         (''brand_search_volume'', JStr ''high'')],
      raw_search_snippets =
        [(''tech_stack'', JList []), (''business_age_months'', JList []),
         (''merchant_category'', JList []), (''company_scale'', JList []),
         (''integration_readiness_score'', JList []),
         (''transaction_intent_score'',
            JList (demo_snippets ''transaction_intent_score'' 5)),
         (''digital_maturity_score'', JList []), (''web_presence_quality'', JList []),
         (''fraud_risk_pattern_score'', JList []), (''traffic_check'', JList []),
         (''brand_search_volume'', JList [])],
      rationales = [(''tech_stack'', JStr ''built on Shopify'')]\<rparr>"

definition demo_world :: world where
  "demo_world = \<lparr>llm_calls = 13, http_calls = 11, commits = 0\<rparr>"

definition demo_assessment :: dict where
  "demo_assessment =
     [(''tech_stack'', JStr ''Shopify''),
      (''integration_readiness_score'', JFloat (Fin (1 / 2))),
      (''transaction_intent_score'', JFloat (Fin 1)),
      (''digital_maturity_score'', JFloat (Fin (3 / 4))),
      (''fraud_risk_pattern_score'', JFloat (Fin (1 / 4))),
      (''brand_search_volume'', JStr ''high''),
      (''lead_score'', JInt 62),
      (''rationales'', JObj (rationales demo_state)),
      (''raw_search_snippets'', JObj (raw_search_snippets demo_state))]"

section \<open>Properties\<close>

lemma keywords_map_keys: "map fst keywords_map = FACTOR_KEYS"
  by (simp add: keywords_map_def FACTOR_KEYS_def)

lemma keywords_map_None: "(map_of keywords_map factor = None) = (factor \<notin> set FACTOR_KEYS)"
  by (simp add: map_of_eq_None_iff flip: keywords_map_keys)

lemma keywords_map_long: "map_of keywords_map factor = Some ks \<Longrightarrow> 4 \<le> length ks"
  by (auto simp: keywords_map_def split: if_splits)

lemma py_join_two: "sep \<noteq> [] \<Longrightarrow> 2 \<le> length xs \<Longrightarrow> py_join sep xs \<noteq> []"
  by (cases "(sep, xs)" rule: py_join.cases) auto

lemma factor_keywords_len: "2 \<le> length (factor_keywords factor) \<and> length (factor_keywords factor) \<le> 6"
  by (auto simp: factor_keywords_def split: option.splits dest: keywords_map_long)

lemma or_clause_nonempty: "py_join '' OR '' (map quote_kw (factor_keywords factor)) \<noteq> []"
  using factor_keywords_len [of factor] by (intro py_join_two) auto

text \<open>
  Claim C9. For every company name, industry, source URL and factor, the query is the
  parenthesised clause of the quoted name (when there is one) and the keywords joined
  by OR, a keyword with a space in quotes, at most six of them; then the industry when
  there is one; then the site restriction: the host when the URL parses to one, nothing
  when it parses to none, and the URL itself when parsing raises. A factor outside
  the eleven keys has the keywords: its own name, website, reviews.
\<close>

theorem seo_query_structure:
  "seo_query_for_factor e nm ind url factor =
     ''('' @ name_clause nm @ py_join '' OR '' (map quote_kw (factor_keywords factor)) @ '')''
       @ industry_part ind @ site_part e url
   \<and> length (factor_keywords factor) \<le> 6
   \<and> (factor \<notin> set FACTOR_KEYS \<longrightarrow> factor_keywords factor = [factor, ''website'', ''reviews''])
   \<and> (factor \<in> set FACTOR_KEYS \<longrightarrow>
        (\<exists>ks. map_of keywords_map factor = Some ks \<and> factor_keywords factor = take 6 ks))"
proof -
  have q: "seo_query_for_factor e nm ind url factor =
     ''('' @ name_clause nm @ py_join '' OR '' (map quote_kw (factor_keywords factor)) @ '')''
       @ industry_part ind @ site_part e url"
    using or_clause_nonempty [of factor]
    by (auto simp: seo_query_for_factor_def Let_def name_clause_def industry_part_def
        site_part_def dq_def split: option.splits sum.splits)
  have unknown: "factor \<notin> set FACTOR_KEYS \<longrightarrow> factor_keywords factor = [factor, ''website'', ''reviews'']"
    by (simp add: factor_keywords_def flip: keywords_map_None)
  have known: "factor \<in> set FACTOR_KEYS \<longrightarrow>
        (\<exists>ks. map_of keywords_map factor = Some ks \<and> factor_keywords factor = take 6 ks)"
    using keywords_map_None [of factor] by (auto simp: factor_keywords_def)
  from q unknown known factor_keywords_len [of factor] show ?thesis by blast
qed

lemma map_of_dict_set: "map_of (dict_set d k v) = (map_of d)(k \<mapsto> v)"
  by (induction d) (auto simp: fun_eq_iff)

lemma dict_get_set: "dict_get (dict_set d k v) k' = (if k' = k then v else dict_get d k')"
  by (simp add: dict_get_def map_of_dict_set)

lemma dict_has_set: "dict_has (dict_set d k v) k' = (k' = k \<or> dict_has d k')"
  by (simp add: dict_has_def map_of_dict_set)

lemma dict_get_has: "dict_get d k \<noteq> JNull \<Longrightarrow> dict_has d k"
  by (auto simp: dict_get_def dict_has_def split: option.splits)

lemma dict_keys_set:
  "map fst (dict_set d k v) = (if k \<in> set (map fst d) then map fst d else map fst d @ [k])"
  by (induction d) (auto simp: image_iff split: option.splits, (metis fst_conv)+)

lemma clamp_cases:
  "py_max (Fin 0) (py_min (Fin 1) fv) =
     (case fv of Fin r \<Rightarrow> Fin (max 0 (min 1 r)) | PInf \<Rightarrow> Fin 1 | NInf \<Rightarrow> Fin 0 | NaN \<Rightarrow> Fin 1)"
  by (cases fv) (auto simp: py_max_def py_min_def)

lemma clamp_unit: "unit_float (py_max (Fin 0) (py_min (Fin 1) fv))"
  by (cases fv) (auto simp: clamp_cases unit_float_def)

lemma clamped_score_unit: "clamped_score e v = Some c \<Longrightarrow> unit_float c"
  by (auto simp: clamped_score_def clamp_unit split: if_splits sum.splits)

lemma normalize_key_alt:
  "normalize_key e (a, ns) k =
     (case clamped_score e (dict_get a k) of
        None \<Rightarrow> (a, ns)
      | Some c \<Rightarrow> (dict_set a k (JFloat c), ns @ [c]))"
  by (simp add: normalize_key_def clamped_score_def Let_def split: sum.splits)

lemma clamped_score_Some_has: "clamped_score e (dict_get a k) = Some c \<Longrightarrow> dict_has a k"
  by (rule dict_get_has) (auto simp: clamped_score_def split: if_splits)

lemma normalize_key_has: "dict_has (fst (normalize_key e an k)) k' = dict_has (fst an) k'"
  by (cases an) (auto simp: normalize_key_alt dict_has_set split: option.splits
      dest: clamped_score_Some_has)

lemma normalize_fold_has: "dict_has (fst (foldl (normalize_key e) an ks)) k' = dict_has (fst an) k'"
  by (induction ks arbitrary: an) (simp_all add: normalize_key_has)

lemma normalize_key_get_other:
  "k' \<noteq> k \<Longrightarrow> dict_get (fst (normalize_key e an k)) k' = dict_get (fst an) k'"
  by (cases an) (auto simp: normalize_key_alt dict_get_set split: option.splits)

lemma normalize_fold_get_other:
  "k' \<notin> set ks \<Longrightarrow> dict_get (fst (foldl (normalize_key e) an ks)) k' = dict_get (fst an) k'"
  by (induction ks arbitrary: an) (simp_all add: normalize_key_get_other)

lemma normalize_fold_get:
  "distinct ks \<Longrightarrow> k \<in> set ks \<Longrightarrow>
   dict_get (fst (foldl (normalize_key e) (a, ns) ks)) k =
     (case clamped_score e (dict_get a k) of None \<Rightarrow> dict_get a k | Some c \<Rightarrow> JFloat c)"
proof (induction ks arbitrary: a ns)
  case Nil
  then show ?case by simp
next
  case (Cons x xs)
  obtain a1 ns1 where step: "normalize_key e (a, ns) x = (a1, ns1)"
    by (cases "normalize_key e (a, ns) x")
  show ?case
  proof (cases "k = x")
    case True
    with Cons.prems have "k \<notin> set xs" by simp
    then have "dict_get (fst (foldl (normalize_key e) (a1, ns1) xs)) k = dict_get a1 k"
      by (simp add: normalize_fold_get_other)
    moreover have "dict_get a1 k =
        (case clamped_score e (dict_get a k) of None \<Rightarrow> dict_get a k | Some c \<Rightarrow> JFloat c)"
      using step True by (auto simp: normalize_key_alt dict_get_set split: option.splits)
    ultimately show ?thesis using step by simp
  next
    case False
    with Cons.prems have "k \<in> set xs" "distinct xs" by auto
    then have "dict_get (fst (foldl (normalize_key e) (a1, ns1) xs)) k =
        (case clamped_score e (dict_get a1 k) of None \<Rightarrow> dict_get a1 k | Some c \<Rightarrow> JFloat c)"
      by (rule Cons.IH [rotated])
    moreover have "dict_get a1 k = dict_get a k"
      using normalize_key_get_other [of k x e "(a, ns)"] step False by simp
    ultimately show ?thesis using step by (simp split: option.splits)
  qed
qed

lemma map_filter_Cons:
  "List.map_filter f (x # xs) = (case f x of None \<Rightarrow> [] | Some y \<Rightarrow> [y]) @ List.map_filter f xs"
  by (simp add: List.map_filter_def split: option.splits)

lemma map_filter_cong_set:
  "(\<And>x. x \<in> set xs \<Longrightarrow> f x = g x) \<Longrightarrow> List.map_filter f xs = List.map_filter g xs"
  by (induction xs) (auto simp: map_filter_Cons split: option.splits)

lemma normalize_fold_scores:
  "distinct ks \<Longrightarrow>
   snd (foldl (normalize_key e) (a, ns) ks) =
     ns @ List.map_filter (\<lambda>k. clamped_score e (dict_get a k)) ks"
proof (induction ks arbitrary: a ns)
  case Nil
  then show ?case by simp
next
  case (Cons x xs)
  obtain a1 ns1 where step: "normalize_key e (a, ns) x = (a1, ns1)"
    by (cases "normalize_key e (a, ns) x")
  have same: "\<And>k. k \<in> set xs \<Longrightarrow> dict_get a1 k = dict_get a k"
  proof -
    fix k assume "k \<in> set xs"
    with Cons.prems have "k \<noteq> x" by auto
    then show "dict_get a1 k = dict_get a k"
      using normalize_key_get_other [of k x e "(a, ns)"] step by simp
  qed
  have ns1: "ns1 = ns @ (case clamped_score e (dict_get a x) of None \<Rightarrow> [] | Some c \<Rightarrow> [c])"
    using step by (auto simp: normalize_key_alt split: option.splits)
  have "snd (foldl (normalize_key e) (a1, ns1) xs) =
      ns1 @ List.map_filter (\<lambda>k. clamped_score e (dict_get a1 k)) xs"
    using Cons.prems by (intro Cons.IH) simp
  also have "List.map_filter (\<lambda>k. clamped_score e (dict_get a1 k)) xs =
      List.map_filter (\<lambda>k. clamped_score e (dict_get a k)) xs"
    by (rule map_filter_cong_set) (simp add: same)
  finally show ?case using step ns1 by (simp add: map_filter_Cons split: option.splits)
qed

lemma SCORE_KEYS_distinct: "distinct SCORE_KEYS"
  by (simp add: SCORE_KEYS_def)

lemma finish_scores:
  "foldl (normalize_key e) (a, []) SCORE_KEYS = (a1, ns) \<Longrightarrow> ns = normalized_scores e a"
  using normalize_fold_scores [OF SCORE_KEYS_distinct, of e a "[]"]
  by (simp add: normalized_scores_def)

lemma normalized_scores_unit: "list_all unit_float (normalized_scores e a)"
  by (auto simp: normalized_scores_def List.map_filter_def list_all_iff
      dest: clamped_score_unit)

lemma record_factor_snippets: "raw_search_snippets (record_factor st f res) = raw_search_snippets st"
  by (simp add: record_factor_def Let_def)

lemma record_factor_has:
  "dict_has (assessment (record_factor st f res)) k \<Longrightarrow> k = f \<or> dict_has (assessment st) k"
  by (auto simp: record_factor_def Let_def dict_has_set split: if_splits)

lemma assess_factor_Inr:
  assumes "assess_factor e ld f st w = (Inr st', w')"
  shows "(dict_has (assessment st') k \<longrightarrow> k = f \<or> dict_has (assessment st) k)
       \<and> (\<exists>x. raw_search_snippets st' = dict_set (raw_search_snippets st) f x)"
  using assms
  by (auto simp: assess_factor_def Let_def record_factor_snippets
      split: prod.splits sum.splits dest: record_factor_has)

lemma assess_factors_has:
  "assess_factors e ld fs st w = (Inr st', w') \<Longrightarrow> dict_has (assessment st') k \<Longrightarrow>
   k \<in> set fs \<or> dict_has (assessment st) k"
proof (induction fs arbitrary: st w)
  case Nil
  then show ?case by simp
next
  case (Cons f fs)
  from Cons.prems(1) obtain st1 w1 where
    one: "assess_factor e ld f st w = (Inr st1, w1)" and
    rest: "assess_factors e ld fs st1 w1 = (Inr st', w')"
    by (auto split: prod.splits sum.splits)
  from Cons.IH [OF rest Cons.prems(2)] assess_factor_Inr [OF one, of k]
  show ?case by auto
qed

lemma assess_factors_snippet_keys:
  "assess_factors e ld fs st w = (Inr st', w') \<Longrightarrow> distinct fs \<Longrightarrow>
   set fs \<inter> set (map fst (raw_search_snippets st)) = {} \<Longrightarrow>
   map fst (raw_search_snippets st') = map fst (raw_search_snippets st) @ fs"
proof (induction fs arbitrary: st w)
  case Nil
  then show ?case by simp
next
  case (Cons f fs)
  from Cons.prems(1) obtain st1 w1 where
    one: "assess_factor e ld f st w = (Inr st1, w1)" and
    rest: "assess_factors e ld fs st1 w1 = (Inr st', w')"
    by (auto split: prod.splits sum.splits)
  from assess_factor_Inr [OF one, of f] obtain x where
    "raw_search_snippets st1 = dict_set (raw_search_snippets st) f x" by blast
  moreover have "f \<notin> set (map fst (raw_search_snippets st))"
    using Cons.prems(3) by auto
  ultimately have keys1:
    "map fst (raw_search_snippets st1) = map fst (raw_search_snippets st) @ [f]"
    by (simp only: dict_keys_set if_False)
  have "map fst (raw_search_snippets st') = map fst (raw_search_snippets st1) @ fs"
    using Cons.prems(2,3) by (intro Cons.IH [OF rest]) (auto simp: keys1)
  then show ?case by (simp add: keys1)
qed

lemma FACTOR_KEYS_distinct: "distinct FACTOR_KEYS"
  by (simp add: FACTOR_KEYS_def)

lemma lead_score_no_factor: "''lead_score'' \<notin> set FACTOR_KEYS"
  by (simp add: FACTOR_KEYS_def)

lemma error_no_factor: "''error'' \<notin> set FACTOR_KEYS"
  by (simp add: FACTOR_KEYS_def)

lemma empty_state_has: "\<not> dict_has (assessment empty_state) k"
  by (simp add: empty_state_def dict_has_def)

lemma loop_no_lead_score:
  "assess_factors e ld FACTOR_KEYS empty_state w = (Inr st, w') \<Longrightarrow>
   \<not> dict_has (assessment st) ''lead_score''"
  using assess_factors_has [of e ld FACTOR_KEYS empty_state w st w' "''lead_score''"]
    lead_score_no_factor empty_state_has by blast

lemma loop_no_error:
  "assess_factors e ld FACTOR_KEYS empty_state w = (Inr st, w') \<Longrightarrow>
   \<not> dict_has (assessment st) ''error''"
  using assess_factors_has [of e ld FACTOR_KEYS empty_state w st w' "''error''"]
    error_no_factor empty_state_has by blast

lemma finish_lead_score:
  "\<not> dict_has (assessment st) ''lead_score'' \<Longrightarrow>
   dict_get (finish_assessment e st) ''lead_score'' =
     JInt (lead_score_of e (normalized_scores e (assessment st)))"
proof -
  assume no: "\<not> dict_has (assessment st) ''lead_score''"
  obtain a1 ns where f: "foldl (normalize_key e) (assessment st, []) SCORE_KEYS = (a1, ns)"
    by (cases "foldl (normalize_key e) (assessment st, []) SCORE_KEYS")
  have "ns = normalized_scores e (assessment st)"
    using f by (rule finish_scores)
  moreover have "\<not> dict_has a1 ''lead_score''"
    using normalize_fold_has [of e "(assessment st, [])" SCORE_KEYS "''lead_score''"] f no
    by simp
  ultimately show ?thesis
    using f by (simp add: finish_assessment_def Let_def dict_get_set)
qed

lemma assess_lead_try_Inr:
  "assess_lead_try e w ld = (Inr a, w') \<Longrightarrow>
   \<exists>st. assess_factors e ld FACTOR_KEYS empty_state w = (Inr st, w') \<and> a = finish_assessment e st"
  by (auto simp: assess_lead_try_def split: prod.splits sum.splits)

text \<open>
  Claim C3. Whenever the body of \<open>assess_lead\<close> completes, the accumulated assessment
  has no \<open>lead_score\<close> key, and the returned \<open>lead_score\<close> is 0 when no score was
  collected and otherwise the rounding of the mean of the normalised scores times 100;
  the normalised scores are the clamped values of the score keys that converted, each
  a finite float in the unit interval.
\<close>

theorem lead_score_computed:
  assumes "assess_lead_try e w ld = (Inr a, w')"
  shows "\<exists>st. assess_factors e ld FACTOR_KEYS empty_state w = (Inr st, w')
     \<and> assess_lead e w ld = (a, w')
     \<and> \<not> dict_has (assessment st) ''lead_score''
     \<and> list_all unit_float (normalized_scores e (assessment st))
     \<and> dict_get a ''lead_score'' =
         JInt (if normalized_scores e (assessment st) = [] then 0
               else py_round (float_mul e
                 (float_div e (float_sum e (map fin_val (normalized_scores e (assessment st))))
                    (int (length (normalized_scores e (assessment st))))) 100))"
proof -
  from assms obtain st where
    loop: "assess_factors e ld FACTOR_KEYS empty_state w = (Inr st, w')" and
    a: "a = finish_assessment e st"
    using assess_lead_try_Inr by blast
  have no: "\<not> dict_has (assessment st) ''lead_score''"
    using loop by (rule loop_no_lead_score)
  have "assess_lead e w ld = (a, w')"
    using assms by (simp add: assess_lead_def)
  moreover have "dict_get a ''lead_score'' =
      JInt (lead_score_of e (normalized_scores e (assessment st)))"
    unfolding a using no by (rule finish_lead_score)
  ultimately show ?thesis
    using loop no normalized_scores_unit [of e "assessment st"]
    by (auto simp: lead_score_of_def)
qed

lemma score_key_names:
  "k \<in> set SCORE_KEYS \<Longrightarrow>
   k \<noteq> ''lead_score'' \<and> k \<noteq> ''rationales'' \<and> k \<noteq> ''raw_search_snippets''"
  by (auto simp: SCORE_KEYS_def)

lemma finish_get_score:
  assumes "k \<in> set SCORE_KEYS"
  shows "dict_get (finish_assessment e st) k =
     (case clamped_score e (dict_get (assessment st) k) of
        None \<Rightarrow> dict_get (assessment st) k
      | Some c \<Rightarrow> JFloat c)"
proof -
  obtain a1 ns where f: "foldl (normalize_key e) (assessment st, []) SCORE_KEYS = (a1, ns)"
    by (cases "foldl (normalize_key e) (assessment st, []) SCORE_KEYS")
  have "dict_get (finish_assessment e st) k = dict_get a1 k"
    using f score_key_names [OF assms]
    by (simp add: finish_assessment_def Let_def dict_get_set)
  also have "dict_get a1 k =
     (case clamped_score e (dict_get (assessment st) k) of
        None \<Rightarrow> dict_get (assessment st) k
      | Some c \<Rightarrow> JFloat c)"
    using normalize_fold_get [OF SCORE_KEYS_distinct assms, of e "assessment st" "[]"] f
    by simp
  finally show ?thesis .
qed

text \<open>
  Claim C4. For a score key whose collected value converts to a float, the returned
  assessment holds under that key a finite float between 0 and 1: 0 for a value below
  0 (and for minus infinity), 1 for a value above 1 (and for infinity and NaN), the
  value itself otherwise.
\<close>

theorem score_factor_clamped:
  assumes "assess_factors e ld FACTOR_KEYS empty_state w = (Inr st, w')"
    and "k \<in> set SCORE_KEYS"
    and "dict_get (assessment st) k \<noteq> JNull"
    and "py_float e (dict_get (assessment st) k) = Inr fv"
  shows "\<exists>a r. assess_lead e w ld = (a, w') \<and> dict_get a k = JFloat (Fin r)
     \<and> 0 \<le> r \<and> r \<le> 1
     \<and> r = (case fv of Fin x \<Rightarrow> if x < 0 then 0 else if 1 < x then 1 else x
             | PInf \<Rightarrow> 1 | NInf \<Rightarrow> 0 | NaN \<Rightarrow> 1)"
proof -
  have run: "assess_lead e w ld = (finish_assessment e st, w')"
    using assms(1) by (simp add: assess_lead_def assess_lead_try_def)
  have c: "clamped_score e (dict_get (assessment st) k) =
      Some (py_max (Fin 0) (py_min (Fin 1) fv))"
    using assms(3,4) by (simp add: clamped_score_def)
  have "dict_get (finish_assessment e st) k = JFloat (py_max (Fin 0) (py_min (Fin 1) fv))"
    using finish_get_score [OF assms(2), of e st] c by simp
  with run show ?thesis
    by (cases fv) (auto simp: clamp_cases)
qed

lemma build_snippets_dicts:
  "list_all is_dict rs \<Longrightarrow> \<exists>ss. build_snippets q rs = Inr ss"
proof (induction rs)
  case Nil
  then show ?case by simp
next
  case (Cons r rs)
  then obtain d where "r = JObj d"
    by (cases r) (auto simp: is_dict_def)
  moreover from Cons obtain ss where "build_snippets q rs = Inr ss" by auto
  ultimately show ?case by (simp add: snippet_of_def)
qed

lemma search_for_factor_dicts:
  assumes "\<exists>xs. fst (SerperClient_search e w (factor_query e ld f) 3) = JList xs \<and> list_all is_dict xs"
  shows "\<exists>sn w1. search_for_factor e w ld f 3 = (Inr sn, w1)"
proof -
  from assms obtain xs w1 where
    s: "SerperClient_search e w (factor_query e ld f) 3 = (JList xs, w1)" and d: "list_all is_dict xs"
    by (cases "SerperClient_search e w (factor_query e ld f) 3") auto
  from build_snippets_dicts [OF d] obtain ss where
    "build_snippets (factor_query e ld f) xs = Inr ss" by blast
  with s show ?thesis by (simp add: search_for_factor_def py_iter_def)
qed

lemma assess_factor_dicts:
  assumes "\<forall>w q. \<exists>xs. fst (SerperClient_search e w q 3) = JList xs \<and> list_all is_dict xs"
  shows "\<exists>st1 w1. assess_factor e ld f st w = (Inr st1, w1)"
proof -
  from assms have "\<exists>xs. fst (SerperClient_search e w (factor_query e ld f) 3) = JList xs \<and> list_all is_dict xs"
    by blast
  from search_for_factor_dicts [OF this] obtain sn w1 where
    "search_for_factor e w ld f 3 = (Inr sn, w1)" by blast
  then show ?thesis
    by (cases "generate_json e w1 (build_factor_prompt e ld f sn) 800")
      (auto simp: assess_factor_def Let_def split: sum.splits)
qed

lemma assess_factors_dicts:
  assumes "\<forall>w q. \<exists>xs. fst (SerperClient_search e w q 3) = JList xs \<and> list_all is_dict xs"
  shows "\<exists>st1 w1. assess_factors e ld fs st w = (Inr st1, w1)"
proof (induction fs arbitrary: st w)
  case Nil
  then show ?case by simp
next
  case (Cons f fs)
  from assess_factor_dicts [OF assms] obtain st1 w1 where
    "assess_factor e ld f st w = (Inr st1, w1)" by blast
  with Cons [of st1 w1] show ?case by simp
qed

lemma finish_keys:
  "dict_get (finish_assessment e st) ''rationales'' = JObj (rationales st)
   \<and> dict_get (finish_assessment e st) ''raw_search_snippets'' = JObj (raw_search_snippets st)
   \<and> dict_has (finish_assessment e st) ''rationales''
   \<and> dict_has (finish_assessment e st) ''raw_search_snippets''"
  by (simp add: finish_assessment_def Let_def dict_get_set dict_has_set)

lemma finish_no_error:
  "\<not> dict_has (assessment st) ''error'' \<Longrightarrow> \<not> dict_has (finish_assessment e st) ''error''"
  using normalize_fold_has [of e "(assessment st, [])" SCORE_KEYS "''error''"]
  by (simp add: finish_assessment_def Let_def dict_has_set)

text \<open>
  Claim C5. When every search gives a list of dicts (an empty list included), whatever
  the completions are, \<open>assess_lead\<close> returns the assessment of a completed loop: all
  eleven factors were visited, in order, and the result has the keys \<open>rationales\<close> and
  \<open>raw_search_snippets\<close> and no \<open>error\<close>.
\<close>

theorem assess_lead_total:
  assumes "\<forall>w q. \<exists>xs. fst (SerperClient_search e w q 3) = JList xs \<and> list_all is_dict xs"
  shows "\<exists>a st w1. assess_lead e w ld = (a, w1)
     \<and> assess_factors e ld FACTOR_KEYS empty_state w = (Inr st, w1)
     \<and> map fst (raw_search_snippets st) = FACTOR_KEYS
     \<and> dict_has a ''rationales'' \<and> dict_get a ''rationales'' = JObj (rationales st)
     \<and> dict_has a ''raw_search_snippets''
     \<and> dict_get a ''raw_search_snippets'' = JObj (raw_search_snippets st)
     \<and> \<not> dict_has a ''error''"
proof -
  from assess_factors_dicts [OF assms] obtain st w1 where
    loop: "assess_factors e ld FACTOR_KEYS empty_state w = (Inr st, w1)" by blast
  have run: "assess_lead e w ld = (finish_assessment e st, w1)"
    using loop by (simp add: assess_lead_def assess_lead_try_def)
  have "map fst (raw_search_snippets st) = map fst (raw_search_snippets empty_state) @ FACTOR_KEYS"
    using loop FACTOR_KEYS_distinct
    by (rule assess_factors_snippet_keys) (simp add: empty_state_def)
  then have keys: "map fst (raw_search_snippets st) = FACTOR_KEYS"
    by (simp add: empty_state_def)
  have "\<not> dict_has (finish_assessment e st) ''error''"
    using loop by (intro finish_no_error loop_no_error)
  with run loop keys finish_keys [of e st] show ?thesis by auto
qed

lemma persist_try_score:
  "persist_try e ld a = Inr ld1 \<Longrightarrow> \<not> is_number (dict_get a ''lead_score'') \<Longrightarrow>
   lead_score ld1 = lead_score ld"
  by (auto simp: persist_try_def Let_def split: sum.splits if_splits)

lemma persist_try_id: "persist_try e ld a = Inr ld1 \<Longrightarrow> lead_id ld1 = lead_id ld"
  by (auto simp: persist_try_def Let_def split: sum.splits if_splits)

lemma db_store_scores:
  assumes "ld \<in> set db" and "distinct (map lead_id db)"
    and "lead_id ld1 = lead_id ld" and "lead_score ld1 = lead_score ld"
  shows "map lead_score (db_store ld1 db) = map lead_score db"
proof -
  have "\<And>r. r \<in> set db \<Longrightarrow> lead_id r = lead_id ld \<Longrightarrow> r = ld"
    using assms(1,2) by (meson distinct_map inj_onD)
  then have "map lead_score (map (\<lambda>r. if lead_id r = lead_id ld1 then ld1 else r) db) =
      map lead_score db"
    using assms(3,4) by (auto simp: map_idI)
  moreover have "lead_id ld1 \<in> set (map lead_id db)"
    using assms(1,3) by auto
  ultimately show ?thesis by (simp only: db_store_def if_True)
qed

text \<open>
  Claim C7. When an exception leaves the body of \<open>assess_lead\<close>, the result is the
  dict with the one key \<open>error\<close>; and persisting leaves \<open>lead_score\<close> as it was
  unless the assessment has a number (an int, a float or a bool) under \<open>lead_score\<close>:
  so for the error-only dict, and so in the table of leads.
\<close>

theorem aggregate_failure_no_score:
  "(assess_lead_try e w ld = (Inl x, w1) \<longrightarrow>
      assess_lead e w ld = ([(''error'', JStr (exn_str x))], w1))
   \<and> (persist_try e ld a = Inr ld1 \<and> \<not> is_number (dict_get a ''lead_score'') \<longrightarrow>
        lead_score ld1 = lead_score ld)
   \<and> (persist_try e ld [(''error'', msg)] = Inr ld2 \<longrightarrow> lead_score ld2 = lead_score ld)
   \<and> (\<not> is_number (dict_get a ''lead_score'') \<and> ld \<in> set db \<and> distinct (map lead_id db) \<longrightarrow>
        map lead_score (fst (persist_assessment e w db ld a)) = map lead_score db)"
proof -
  have one: "assess_lead_try e w ld = (Inl x, w1) \<longrightarrow>
      assess_lead e w ld = ([(''error'', JStr (exn_str x))], w1)"
    by (simp add: assess_lead_def)
  have two: "persist_try e ld a = Inr ld1 \<and> \<not> is_number (dict_get a ''lead_score'') \<longrightarrow>
        lead_score ld1 = lead_score ld"
    using persist_try_score by blast
  have "\<not> is_number (dict_get [(''error'', msg)] ''lead_score'')"
    by (simp add: dict_get_def is_number_def)
  then have three: "persist_try e ld [(''error'', msg)] = Inr ld2 \<longrightarrow> lead_score ld2 = lead_score ld"
    using persist_try_score by blast
  have four: "\<not> is_number (dict_get a ''lead_score'') \<and> ld \<in> set db \<and> distinct (map lead_id db) \<longrightarrow>
        map lead_score (fst (persist_assessment e w db ld a)) = map lead_score db"
  proof (intro impI, elim conjE)
    assume n: "\<not> is_number (dict_get a ''lead_score'')" and m: "ld \<in> set db"
      and d: "distinct (map lead_id db)"
    show "map lead_score (fst (persist_assessment e w db ld a)) = map lead_score db"
    proof (cases "persist_try e ld a")
      case (Inl y)
      then show ?thesis by (simp add: persist_assessment_def)
    next
      case (Inr ld3)
      have "map lead_score (db_store ld3 db) = map lead_score db"
        using m d persist_try_id [OF Inr] persist_try_score [OF Inr n] by (rule db_store_scores)
      with Inr show ?thesis
        by (simp add: persist_assessment_def split: option.splits)
    qed
  qed
  from one two three four show ?thesis by blast
qed

lemma py_strip_idem: "py_strip (py_strip s) = py_strip s"
proof -
  define t where "t = dropWhile py_isspace s"
  define u where "u = rev (dropWhile py_isspace (rev t))"
  have pieces: "t = u @ rev (takeWhile py_isspace (rev t))"
  proof -
    have "t = rev (takeWhile py_isspace (rev t) @ dropWhile py_isspace (rev t))"
      by (simp only: takeWhile_dropWhile_id rev_rev_ident)
    then show ?thesis by (simp only: rev_append u_def)
  qed
  have front: "dropWhile py_isspace u = u"
  proof (cases "u = []")
    case True
    then show ?thesis by simp
  next
    case False
    then have "t \<noteq> []" using pieces by auto
    then have "\<not> py_isspace (hd t)" unfolding t_def by (rule hd_dropWhile)
    moreover have "hd t = hd u" using pieces False by (metis hd_append2)
    ultimately show ?thesis using False by (cases u) auto
  qed
  have behind: "dropWhile py_isspace (rev u) = rev u"
    by (simp add: u_def)
  have "py_strip s = u" by (simp add: py_strip_def t_def u_def)
  moreover have "py_strip u = u" by (simp add: py_strip_def front behind)
  ultimately show ?thesis by simp
qed

lemma fence_start: "startswith (fence @ s) fence"
  by (simp add: startswith_def)

lemma no_tick_no_fence: "s \<noteq> [] \<Longrightarrow> hd s \<noteq> CHR 0x60 \<Longrightarrow> \<not> startswith s fence"
  by (cases s) (auto simp: startswith_def fence_def)

lemma split_to_fence:
  "CHR 0x60 \<notin> set body \<Longrightarrow>
   py_split_from fence acc (body @ fence @ rest) = (rev acc @ body) # py_split_from fence [] rest"
proof (induction body arbitrary: acc)
  case Nil
  have "fence \<noteq> []" by (simp add: fence_def)
  moreover have "fence @ rest \<noteq> []" by (simp add: fence_def)
  ultimately show ?case
    by (subst py_split_from.simps) (simp add: fence_start)
next
  case (Cons c cs)
  then have c: "c \<noteq> CHR 0x60" and cs: "CHR 0x60 \<notin> set cs" by auto
  have "\<not> startswith ((c # cs) @ fence @ rest) fence"
    using c by (intro no_tick_no_fence) auto
  then have "py_split_from fence acc ((c # cs) @ fence @ rest) =
      py_split_from fence (c # acc) (cs @ fence @ rest)"
    by (subst py_split_from.simps) simp
  with Cons.IH [OF cs, of "c # acc"] show ?case by simp
qed

lemma split_fenced:
  "CHR 0x60 \<notin> set body \<Longrightarrow>
   py_split (fence @ body @ fence @ rest) fence = [] # body # py_split_from fence [] rest"
proof -
  assume nb: "CHR 0x60 \<notin> set body"
  have "fence \<noteq> []" "fence @ body @ fence @ rest \<noteq> []" by (simp_all add: fence_def)
  then have "py_split_from fence [] (fence @ body @ fence @ rest) =
      [] # py_split_from fence [] (body @ fence @ rest)"
    by (subst py_split_from.simps) (simp add: fence_start)
  with split_to_fence [OF nb, of "[]" rest] show ?thesis by (simp add: py_split_def)
qed

lemma clean_fences_plain: "\<not> startswith (py_strip t) fence \<Longrightarrow> clean_fences t = py_strip t"
  by (simp add: clean_fences_def Let_def py_strip_idem)

lemma clean_fences_fenced:
  assumes "py_strip t = fence @ body @ fence @ rest" and "CHR 0x60 \<notin> set body"
  shows "clean_fences t = py_strip (if startswith body ''json'' then drop 4 body else body)"
proof -
  have "startswith (py_strip t) fence"
    unfolding assms(1) by (rule fence_start)
  moreover have "py_split (py_strip t) fence = [] # body # py_split_from fence [] rest"
    unfolding assms(1) using assms(2) by (rule split_fenced)
  ultimately show ?thesis by (simp add: clean_fences_def Let_def)
qed

lemma fallback_cases:
  "fallback_to_json_conversion e w t =
     (case json_loads e (clean_fences t) of
        Inr v \<Rightarrow> (Inr v, w)
      | Inl x \<Rightarrow>
          if is_JSONDecodeError x then
            (case bedrock_converse e (llm_calls w) (fixer_prompt (clean_fences t)) 3000 of
               Inl y \<Rightarrow> Inl y
             | Inr fixed \<Rightarrow> json_loads e (clean_fences fixed),
             w\<lparr>llm_calls := Suc (llm_calls w)\<rparr>)
          else (Inl x, w))"
  by (simp add: fallback_to_json_conversion_def generate_text_def Let_def split: sum.splits)

lemma fallback_calls:
  "llm_calls (snd (fallback_to_json_conversion e w t)) =
     (case json_loads e (clean_fences t) of
        Inr v \<Rightarrow> llm_calls w
      | Inl x \<Rightarrow> if is_JSONDecodeError x then Suc (llm_calls w) else llm_calls w)"
  by (simp add: fallback_cases split: sum.splits)

lemma skip_on_failure:
  assumes "search_for_factor e w ld f 3 = (Inr sn, w1)"
    and "generate_json e w1 (build_factor_prompt e ld f sn) 800 = (Inl y, w2)"
  shows "assess_factor e ld f st w =
      (Inr (st\<lparr>raw_search_snippets := dict_set (raw_search_snippets st) f (JList sn)\<rparr>), w2)"
    and "assess_factors e ld (f # fs) st w =
      assess_factors e ld fs
        (st\<lparr>raw_search_snippets := dict_set (raw_search_snippets st) f (JList sn)\<rparr>) w2"
  using assms by (simp_all add: assess_factor_def Let_def)

text \<open>
  Claim C6. JSON repair parses the cleaned text; a parsed value is returned with no
  call of the provider; a \<open>JSONDecodeError\<close> leads to one call with the fixer prompt,
  whose answer is cleaned and parsed once, the exception of that call or parse going
  to the caller; so the provider is called at most once. Cleaning strips the
  whitespace and, of a text that begins with the fence, keeps what stands between the
  first two fences, without a leading \<open>json\<close>, stripped again. When \<open>generate_json\<close>
  raises, the loop over the factors records the snippets, stores nothing else and goes
  on with the next factor.
\<close>

theorem json_repair_single_attempt:
  "(json_loads e (clean_fences t) = Inr v \<longrightarrow>
      fallback_to_json_conversion e w t = (Inr v, w))
   \<and> (json_loads e (clean_fences t) = Inl (JSONDecodeError m) \<longrightarrow>
        fallback_to_json_conversion e w t =
          (case bedrock_converse e (llm_calls w) (fixer_prompt (clean_fences t)) 3000 of
             Inl y \<Rightarrow> Inl y
           | Inr fixed \<Rightarrow> json_loads e (clean_fences fixed),
           w\<lparr>llm_calls := Suc (llm_calls w)\<rparr>))
   \<and> llm_calls w \<le> llm_calls (snd (fallback_to_json_conversion e w t))
   \<and> llm_calls (snd (fallback_to_json_conversion e w t)) \<le> Suc (llm_calls w)
   \<and> (\<not> startswith (py_strip t) fence \<longrightarrow> clean_fences t = py_strip t)
   \<and> (py_strip t = fence @ body @ fence @ rest \<and> CHR 0x60 \<notin> set body \<longrightarrow>
        clean_fences t = py_strip (if startswith body ''json'' then drop 4 body else body))
   \<and> (search_for_factor e w ld f 3 = (Inr sn, w1) \<and>
      generate_json e w1 (build_factor_prompt e ld f sn) 800 = (Inl y, w2) \<longrightarrow>
        assess_factor e ld f st w =
          (Inr (st\<lparr>raw_search_snippets := dict_set (raw_search_snippets st) f (JList sn)\<rparr>), w2)
        \<and> assess_factors e ld (f # fs) st w =
            assess_factors e ld fs
              (st\<lparr>raw_search_snippets := dict_set (raw_search_snippets st) f (JList sn)\<rparr>) w2)"
proof -
  have a: "json_loads e (clean_fences t) = Inr v \<longrightarrow>
      fallback_to_json_conversion e w t = (Inr v, w)"
    by (simp add: fallback_cases)
  have b: "json_loads e (clean_fences t) = Inl (JSONDecodeError m) \<longrightarrow>
        fallback_to_json_conversion e w t =
          (case bedrock_converse e (llm_calls w) (fixer_prompt (clean_fences t)) 3000 of
             Inl y \<Rightarrow> Inl y
           | Inr fixed \<Rightarrow> json_loads e (clean_fences fixed),
           w\<lparr>llm_calls := Suc (llm_calls w)\<rparr>)"
    by (simp add: fallback_cases)
  have c: "llm_calls w \<le> llm_calls (snd (fallback_to_json_conversion e w t))"
    "llm_calls (snd (fallback_to_json_conversion e w t)) \<le> Suc (llm_calls w)"
    by (simp_all add: fallback_calls split: sum.splits)
  have d: "\<not> startswith (py_strip t) fence \<longrightarrow> clean_fences t = py_strip t"
    using clean_fences_plain by blast
  have f: "py_strip t = fence @ body @ fence @ rest \<and> CHR 0x60 \<notin> set body \<longrightarrow>
        clean_fences t = py_strip (if startswith body ''json'' then drop 4 body else body)"
    using clean_fences_fenced by blast
  have g: "search_for_factor e w ld f 3 = (Inr sn, w1) \<and>
      generate_json e w1 (build_factor_prompt e ld f sn) 800 = (Inl y, w2) \<longrightarrow>
        assess_factor e ld f st w =
          (Inr (st\<lparr>raw_search_snippets := dict_set (raw_search_snippets st) f (JList sn)\<rparr>), w2)
        \<and> assess_factors e ld (f # fs) st w =
            assess_factors e ld fs
              (st\<lparr>raw_search_snippets := dict_set (raw_search_snippets st) f (JList sn)\<rparr>) w2"
    using skip_on_failure by blast
  from a b c d f g show ?thesis by blast
qed

lemma persist_try_Inr:
  assumes "persist_try e ld a = Inr ld1"
  shows "status ld1 = Some ''assessed''"
    and "\<exists>d. raw_data ld1 = Some (json_dumps e (JObj d)) \<and> dict_get d ''assessment'' = JObj a"
proof -
  from assms obtain ex where
    set: "py_setitem (existing_of e ld) ''assessment'' (JObj a) = Inr ex"
    by (auto simp: persist_try_def split: sum.splits)
  then obtain d0 where ex: "ex = JObj (dict_set d0 ''assessment'' (JObj a))"
    by (cases "existing_of e ld") (auto simp: py_setitem_def)
  from assms set show "status ld1 = Some ''assessed''"
    by (auto simp: persist_try_def Let_def split: sum.splits if_splits)
  from assms set have "raw_data ld1 = Some (json_dumps e ex)"
    by (auto simp: persist_try_def Let_def split: sum.splits if_splits)
  then show "\<exists>d. raw_data ld1 = Some (json_dumps e (JObj d)) \<and> dict_get d ''assessment'' = JObj a"
    using ex by (auto simp: dict_get_set)
qed

lemma db_store_rows:
  "ld1 \<in> set (db_store ld1 db)"
  "r \<in> set (db_store ld1 db) \<Longrightarrow> lead_id r = lead_id ld1 \<Longrightarrow> r = ld1"
proof -
  show "ld1 \<in> set (db_store ld1 db)"
  proof (cases "lead_id ld1 \<in> set (map lead_id db)")
    case True
    then obtain r0 where "r0 \<in> set db" "lead_id r0 = lead_id ld1" by auto
    then have "ld1 \<in> (\<lambda>r. if lead_id r = lead_id ld1 then ld1 else r) ` set db"
      by (intro image_eqI [of _ _ r0]) simp_all
    with True show ?thesis by (simp add: db_store_def)
  next
    case False
    then show ?thesis by (simp add: db_store_def)
  qed
  show "r \<in> set (db_store ld1 db) \<Longrightarrow> lead_id r = lead_id ld1 \<Longrightarrow> r = ld1"
    by (cases "lead_id ld1 \<in> set (map lead_id db)")
      (auto simp: db_store_def image_iff split: if_splits)
qed

lemma query_unassessed_rows:
  "r \<in> set (query_unassessed db limit) \<Longrightarrow> r \<in> set db \<and> unassessed r"
proof -
  assume "r \<in> set (query_unassessed db limit)"
  then have "r \<in> set (sort_key created_at (filter unassessed db))"
    by (auto simp: query_unassessed_def Let_def split: option.splits if_splits
        dest: in_set_takeD)
  then show ?thesis by simp
qed

lemma assess_each_ids:
  "result_lead_ids (fst (assess_each e lds w db)) = map (\<lambda>l. JInt (lead_id l)) lds"
  by (induction lds arbitrary: w db)
    (simp_all add: result_lead_ids_def dict_get_def split_beta)

text \<open>
  Claim C8. For every assessment, the error-only one included: when
  \<open>persist_assessment\<close> reaches its commit and the commit succeeds, the stored lead has
  the status \<open>assessed\<close> and a \<open>raw_data\<close> that is the dump of a dict with the
  assessment under \<open>assessment\<close>; no row with its key is among the leads
  \<open>assess_all_leads\<close> then selects, whatever the limit, and no result of such a run is
  for it.
\<close>

theorem persisted_lead_not_retried:
  assumes "persist_try e ld a = Inr ld1" and "session_commit e (commits w) = None"
  shows "fst (persist_assessment e w db ld a) = db_store ld1 db
     \<and> ld1 \<in> set (db_store ld1 db) \<and> lead_id ld1 = lead_id ld
     \<and> status ld1 = Some ''assessed''
     \<and> (\<exists>d. raw_data ld1 = Some (json_dumps e (JObj d)) \<and> dict_get d ''assessment'' = JObj a)
     \<and> (\<forall>r \<in> set (query_unassessed (db_store ld1 db) limit). lead_id r \<noteq> lead_id ld)
     \<and> JInt (lead_id ld) \<notin>
         set (result_lead_ids (fst (assess_all_leads e2 w2 (db_store ld1 db) limit)))"
proof -
  have stored: "fst (persist_assessment e w db ld a) = db_store ld1 db"
    using assms by (simp add: persist_assessment_def)
  have idd: "lead_id ld1 = lead_id ld"
    using assms(1) by (rule persist_try_id)
  have st: "status ld1 = Some ''assessed''"
    using assms(1) by (rule persist_try_Inr)
  have out: "lead_id r \<noteq> lead_id ld" if "r \<in> set (query_unassessed (db_store ld1 db) limit)" for r
  proof
    assume same: "lead_id r = lead_id ld"
    from that have row: "r \<in> set (db_store ld1 db)" and un: "unassessed r"
      using query_unassessed_rows by blast+
    from row same idd have "r = ld1" by (intro db_store_rows(2)) simp_all
    with un st show False by (simp add: unassessed_def)
  qed
  have ids: "set (result_lead_ids (fst (assess_all_leads e2 w2 (db_store ld1 db) limit))) =
      (\<lambda>l. JInt (lead_id l)) ` set (query_unassessed (db_store ld1 db) limit)"
    by (simp add: assess_all_leads_def assess_each_ids)
  have "JInt (lead_id ld) \<notin> set (result_lead_ids (fst (assess_all_leads e2 w2 (db_store ld1 db) limit)))"
    unfolding ids using out by fastforce
  with stored idd st out db_store_rows(1) [of ld1 db] persist_try_Inr(2) [OF assms(1)]
  show ?thesis by blast
qed

lemma slice_to_len: "0 \<le> n \<Longrightarrow> int (length (slice_to xs n)) \<le> n"
  by (simp add: slice_to_def)

lemma py_slice_len:
  "0 \<le> n \<Longrightarrow> py_slice v n = Inr r \<Longrightarrow> \<exists>k. json_len r = Some k \<and> int k \<le> n"
  by (cases v) (auto simp: py_slice_def json_len_def slice_to_len)

lemma search_try_len:
  "0 \<le> n \<Longrightarrow> search_try e c q n = Inr r \<Longrightarrow> \<exists>k. json_len r = Some k \<and> int k \<le> n"
  by (auto simp: search_try_def split: sum.splits option.splits json.splits dest: py_slice_len)

text \<open>
  Claim C10, amended. \<open>SerperClient.search\<close> returns a value for every query and every
  \<open>num_results\<close>, after one request: the empty list when the request raises, when the
  status is an error and when the body does not decode; the slice of the results
  when the answer has a list of them; and for \<open>num_results\<close> of 0 or more a list or a
  string of at most \<open>num_results\<close> items.
\<close>

theorem search_total_bounded:
  "(requests_post e (http_calls w) q n = Inl x \<longrightarrow>
      fst (SerperClient_search e w q n) = JList [])
   \<and> (requests_post e (http_calls w) q n = Inr r \<and> 400 \<le> status_code r \<and> status_code r < 600 \<longrightarrow>
        fst (SerperClient_search e w q n) = JList [])
   \<and> (requests_post e (http_calls w) q n = Inr r \<and> json_body r = Inl y \<longrightarrow>
        fst (SerperClient_search e w q n) = JList [])
   \<and> (requests_post e (http_calls w) q n = Inr r \<and> \<not> (400 \<le> status_code r \<and> status_code r < 600)
        \<and> json_body r = Inr (JObj d)
        \<and> py_or (dict_get d ''organic'') (py_or (dict_get d ''results'') (JList [])) = JList xs \<longrightarrow>
        fst (SerperClient_search e w q n) = JList (slice_to xs n))
   \<and> (0 \<le> n \<longrightarrow> (\<exists>k. json_len (fst (SerperClient_search e w q n)) = Some k \<and> int k \<le> n))
   \<and> http_calls (snd (SerperClient_search e w q n)) = Suc (http_calls w)"
proof -
  have a: "requests_post e (http_calls w) q n = Inl x \<longrightarrow>
      fst (SerperClient_search e w q n) = JList []"
    by (simp add: SerperClient_search_def search_try_def)
  have b: "requests_post e (http_calls w) q n = Inr r \<and> 400 \<le> status_code r \<and> status_code r < 600 \<longrightarrow>
        fst (SerperClient_search e w q n) = JList []"
    by (simp add: SerperClient_search_def search_try_def raise_for_status_def)
  have c: "requests_post e (http_calls w) q n = Inr r \<and> json_body r = Inl y \<longrightarrow>
        fst (SerperClient_search e w q n) = JList []"
    by (simp add: SerperClient_search_def search_try_def split: option.splits)
  have d: "requests_post e (http_calls w) q n = Inr r \<and> \<not> (400 \<le> status_code r \<and> status_code r < 600)
        \<and> json_body r = Inr (JObj d)
        \<and> py_or (dict_get d ''organic'') (py_or (dict_get d ''results'') (JList [])) = JList xs \<longrightarrow>
        fst (SerperClient_search e w q n) = JList (slice_to xs n)"
    by (auto simp: SerperClient_search_def search_try_def raise_for_status_def py_slice_def)
  have f: "0 \<le> n \<longrightarrow> (\<exists>k. json_len (fst (SerperClient_search e w q n)) = Some k \<and> int k \<le> n)"
  proof
    assume n: "0 \<le> n"
    show "\<exists>k. json_len (fst (SerperClient_search e w q n)) = Some k \<and> int k \<le> n"
    proof (cases "search_try e (http_calls w) q n")
      case (Inl z)
      with n show ?thesis by (simp add: SerperClient_search_def json_len_def)
    next
      case (Inr v)
      with search_try_len [OF n Inr] show ?thesis by (simp add: SerperClient_search_def)
    qed
  qed
  have g: "http_calls (snd (SerperClient_search e w q n)) = Suc (http_calls w)"
    by (simp add: SerperClient_search_def split: sum.splits)
  from a b c d f g show ?thesis by blast
qed

section \<open>The sample run, evaluated\<close>

lemma clean_plain:
  "clean_fences ''T'' = ''T''" "clean_fences ''I'' = ''I''" "clean_fences ''V'' = ''V''"
  "clean_fences ''Z'' = ''Z''" "clean_fences ''O'' = ''O''" "clean_fences ''N'' = ''N''"
  "clean_fences ''E'' = ''E''" "clean_fences ''not json'' = ''not json''"
  by (simp_all add: clean_fences_def py_strip_def py_isspace_def startswith_def fence_def Let_def)

lemma clean_fenced: "clean_fences fenced_F = ''F''"
  by (simp add: clean_fences_def py_strip_def py_isspace_def startswith_def fence_def Let_def
      py_split_def fenced_F_def)

lemma fenced_F_neq:
  "fenced_F \<noteq> ''T''" "fenced_F \<noteq> ''I''" "fenced_F \<noteq> ''V''" "fenced_F \<noteq> ''F''"
  "fenced_F \<noteq> ''Z''" "fenced_F \<noteq> ''O''" "fenced_F \<noteq> ''N''" "fenced_F \<noteq> ''E''"
  by (simp_all add: fenced_F_def fence_def)

lemma demo_search:
  "search_for_factor demo_env w acme f 3 =
     (Inr (demo_snippets f (http_calls w)), w\<lparr>http_calls := Suc (http_calls w)\<rparr>)"
  by (simp add: search_for_factor_def SerperClient_search_def search_try_def demo_env_def
      demo_post_def raise_for_status_def py_slice_def py_iter_def slice_to_def dict_get_def
      py_or_def pricing_result_def snippet_of_def demo_snippets_def Let_def)

lemma demo_generate_json:
  "generate_json demo_env w p m =
     (demo_parsed (llm_calls w), w\<lparr>llm_calls := demo_calls (llm_calls w)\<rparr>)"
  by (simp add: generate_json_def generate_text_def fallback_to_json_conversion_def
      demo_env_def demo_text_def demo_parsed_def demo_calls_def clean_plain clean_fenced fenced_F_neq
      demo_loads_def Let_def)

lemma demo_loop_step:
  "assess_factors demo_env acme (f # fs) st w =
     assess_factors demo_env acme fs
       (case demo_parsed (llm_calls w) of
          Inl x \<Rightarrow>
            st\<lparr>raw_search_snippets :=
                 dict_set (raw_search_snippets st) f (JList (demo_snippets f (http_calls w)))\<rparr>
        | Inr res \<Rightarrow>
            record_factor
              (st\<lparr>raw_search_snippets :=
                    dict_set (raw_search_snippets st) f (JList (demo_snippets f (http_calls w)))\<rparr>)
              f res)
       (w\<lparr>http_calls := Suc (http_calls w), llm_calls := demo_calls (llm_calls w)\<rparr>)"
  by (simp add: assess_factor_def demo_search demo_generate_json Let_def split: sum.splits)

lemma demo_loop:
  "assess_factors demo_env acme FACTOR_KEYS empty_state w0 = (Inr demo_state, demo_world)"
  by (simp add: FACTOR_KEYS_def demo_loop_step demo_parsed_def demo_calls_def demo_text_def
      demo_loads_def demo_snippets_def record_factor_def parsed_factor_of_def
      extract_value_def dict_get_def py_or_def empty_state_def w0_def demo_state_def
      demo_world_def Let_def
      del: assess_factors.simps(2))

lemma demo_finish: "finish_assessment demo_env demo_state = demo_assessment"
  by (simp add: finish_assessment_def normalize_key_def SCORE_KEYS_def py_float_def
      demo_env_def py_max_def py_min_def lead_score_of_def py_round_def dict_get_def
      dict_has_def demo_state_def demo_assessment_def Let_def)

lemma demo_run: "assess_lead_try demo_env w0 acme = (Inr demo_assessment, demo_world)"
  by (simp add: assess_lead_try_def demo_loop demo_finish)

lemma demo_results_dicts:
  "\<forall>w q. \<exists>xs. fst (SerperClient_search demo_env w q 3) = JList xs \<and> list_all is_dict xs"
  by (intro allI)
    (simp add: SerperClient_search_def search_try_def demo_env_def demo_post_def
      raise_for_status_def py_slice_def slice_to_def dict_get_def py_or_def
      pricing_result_def is_dict_def)

lemma broken_step:
  "assess_factors broken_env acme (f # fs) st w =
     (Inl (AttributeError ''object has no attribute get''), w\<lparr>http_calls := Suc (http_calls w)\<rparr>)"
  by (simp add: assess_factor_def search_for_factor_def SerperClient_search_def search_try_def
      broken_env_def demo_env_def raise_for_status_def py_slice_def slice_to_def dict_get_def
      py_or_def py_iter_def snippet_of_def Let_def)

lemma broken_run:
  "assess_lead_try broken_env w0 acme =
     (Inl (AttributeError ''object has no attribute get''), w0\<lparr>http_calls := 1\<rparr>)"
  by (simp add: assess_lead_try_def FACTOR_KEYS_def broken_step w0_def
      del: assess_factors.simps(2))

lemma persist_error_only:
  "persist_try demo_env acme [(''error'', JStr ''boom'')] =
     Inr (acme\<lparr>raw_data := Some ''null'', status := Some ''assessed''\<rparr>)"
  by (simp add: persist_try_def existing_of_def py_setitem_def is_number_def dict_get_def
      acme_def demo_env_def)

lemma demo_env_sel:
  "json_loads demo_env = demo_loads"
  "bedrock_converse demo_env n p m = Inr (demo_text n)"
  by (simp_all add: demo_env_def)

lemma strip_fenced_F: "py_strip fenced_F = fence @ ''json\<newline>F\<newline>'' @ fence @ []"
  by (simp add: py_strip_def py_isspace_def fenced_F_def fence_def)

lemma demo_commit: "session_commit demo_env (commits w0) = None"
  by (simp add: demo_env_def)

lemma acme_unassessed: "query_unassessed [acme] None = [acme]"
  by (simp add: query_unassessed_def unassessed_def acme_def)

lemma record_factor_other:
  "k \<noteq> f \<Longrightarrow> dict_get (assessment (record_factor st f res)) k = dict_get (assessment st) k"
  by (simp add: record_factor_def Let_def dict_get_set)

section \<open>The properties on the sample run\<close>

theorem seo_query_structure_witness:
  "''tech_stack'' \<in> set FACTOR_KEYS
   \<and> seo_query_for_factor demo_env ''Acme Co'' (Some ''SaaS'') (Some ''https://acme.io'')
        ''tech_stack'' =
       ''('' @ dq @ ''Acme Co'' @ dq @ '' '' @ dq @ ''built on'' @ dq @ '' OR '' @ dq
         @ ''powered by'' @ dq @ '' OR Shopify OR WooCommerce OR WordPress OR Magento)''
         @ '' SaaS'' @ '' site:acme.io''
   \<and> ''pricing page'' \<notin> set FACTOR_KEYS
   \<and> seo_query_for_factor demo_env [] None None ''pricing page'' =
       ''('' @ dq @ ''pricing page'' @ dq @ '' OR website OR reviews)''"
  using seo_query_structure [of demo_env "''Acme Co''" "Some ''SaaS''" "Some ''https://acme.io''"
      "''tech_stack''"]
    seo_query_structure [of demo_env "[]" None None "''pricing page''"]
  by (simp add: name_clause_def industry_part_def site_part_def factor_keywords_def
      keywords_map_def quote_kw_def dq_def FACTOR_KEYS_def demo_env_def)

theorem lead_score_computed_witness:
  "assess_lead_try demo_env w0 acme = (Inr demo_assessment, demo_world)
   \<and> assess_lead demo_env w0 acme = (demo_assessment, demo_world)
   \<and> normalized_scores demo_env (assessment demo_state) =
       [Fin (1 / 2), Fin 1, Fin (3 / 4), Fin (1 / 4)]
   \<and> dict_get demo_assessment ''lead_score'' = JInt 62"
proof -
  have run: "assess_lead_try demo_env w0 acme = (Inr demo_assessment, demo_world)"
    by (rule demo_run)
  have ns: "normalized_scores demo_env (assessment demo_state) =
       [Fin (1 / 2), Fin 1, Fin (3 / 4), Fin (1 / 4)]"
    by (simp add: normalized_scores_def clamped_score_def SCORE_KEYS_def py_float_def
        demo_env_def py_max_def py_min_def dict_get_def demo_state_def List.map_filter_def)
  from lead_score_computed [OF run] obtain st where
    "assess_factors demo_env acme FACTOR_KEYS empty_state w0 = (Inr st, demo_world)"
    "assess_lead demo_env w0 acme = (demo_assessment, demo_world)"
    "dict_get demo_assessment ''lead_score'' =
       JInt (if normalized_scores demo_env (assessment st) = [] then 0
             else py_round (float_mul demo_env
               (float_div demo_env
                  (float_sum demo_env (map fin_val (normalized_scores demo_env (assessment st))))
                  (int (length (normalized_scores demo_env (assessment st))))) 100))"
    by blast
  moreover from this(1) have "st = demo_state" by (simp add: demo_loop)
  ultimately show ?thesis
    using run ns by (simp add: demo_env_def py_round_def)
qed

theorem score_factor_clamped_witness:
  "assess_factors demo_env acme FACTOR_KEYS empty_state w0 = (Inr demo_state, demo_world)
   \<and> ''transaction_intent_score'' \<in> set SCORE_KEYS
   \<and> dict_get (assessment demo_state) ''transaction_intent_score'' = JInt 3
   \<and> py_float demo_env (JInt 3) = Inr (Fin 3)
   \<and> dict_get (fst (assess_lead demo_env w0 acme)) ''transaction_intent_score'' = JFloat (Fin 1)"
proof -
  have k: "''transaction_intent_score'' \<in> set SCORE_KEYS"
    by (simp add: SCORE_KEYS_def)
  have v: "dict_get (assessment demo_state) ''transaction_intent_score'' = JInt 3"
    by (simp add: dict_get_def demo_state_def)
  have nn: "dict_get (assessment demo_state) ''transaction_intent_score'' \<noteq> JNull"
    by (simp add: v)
  have f: "py_float demo_env (dict_get (assessment demo_state) ''transaction_intent_score'') =
      Inr (Fin 3)"
    by (simp add: v py_float_def demo_env_def)
  from score_factor_clamped [OF demo_loop k nn f] demo_loop k v f
  show ?thesis by auto
qed

theorem search_negative_count_counterexample:
  "fst (SerperClient_search listing_env w0 ''acme'' (- 1)) = JList [pricing_result, JObj []]
   \<and> \<not> int (length [pricing_result, JObj []]) \<le> - 1"
  by (simp add: SerperClient_search_def search_try_def listing_env_def demo_env_def
      raise_for_status_def py_slice_def slice_to_def dict_get_def py_or_def w0_def
      pricing_result_def)

theorem assess_lead_total_witness:
  "(\<forall>w q. \<exists>xs. fst (SerperClient_search demo_env w q 3) = JList xs \<and> list_all is_dict xs)
   \<and> assess_lead demo_env w0 acme = (demo_assessment, demo_world)
   \<and> assess_factors demo_env acme FACTOR_KEYS empty_state w0 = (Inr demo_state, demo_world)
   \<and> map fst (raw_search_snippets demo_state) = FACTOR_KEYS
   \<and> dict_has demo_assessment ''rationales''
   \<and> dict_has demo_assessment ''raw_search_snippets''
   \<and> \<not> dict_has demo_assessment ''error''"
proof -
  from assess_lead_total [OF demo_results_dicts, of w0 acme] obtain a st w1 where
    r: "assess_lead demo_env w0 acme = (a, w1)"
      "assess_factors demo_env acme FACTOR_KEYS empty_state w0 = (Inr st, w1)"
      "map fst (raw_search_snippets st) = FACTOR_KEYS"
      "dict_has a ''rationales''" "dict_has a ''raw_search_snippets''" "\<not> dict_has a ''error''"
    by blast
  from r(2) have "st = demo_state" "w1 = demo_world" by (simp_all add: demo_loop)
  moreover from r(1) have "a = demo_assessment"
    by (simp add: assess_lead_def demo_run)
  ultimately show ?thesis using r demo_results_dicts by simp
qed

theorem aggregate_failure_no_score_witness:
  "assess_lead_try broken_env w0 acme =
     (Inl (AttributeError ''object has no attribute get''), w0\<lparr>http_calls := 1\<rparr>)
   \<and> assess_lead broken_env w0 acme =
       ([(''error'', JStr ''object has no attribute get'')], w0\<lparr>http_calls := 1\<rparr>)
   \<and> persist_try demo_env acme [(''error'', JStr ''boom'')] =
       Inr (acme\<lparr>raw_data := Some ''null'', status := Some ''assessed''\<rparr>)
   \<and> lead_score (acme\<lparr>raw_data := Some ''null'', status := Some ''assessed''\<rparr>) = Some (Fin 40)
   \<and> \<not> is_number (dict_get [(''error'', JStr ''boom'')] ''lead_score'')
   \<and> acme \<in> set [acme] \<and> distinct (map lead_id [acme])
   \<and> map lead_score (fst (persist_assessment demo_env w0 [acme] acme [(''error'', JStr ''boom'')])) =
       [Some (Fin 40)]"
  using aggregate_failure_no_score [of broken_env w0 acme
      "AttributeError ''object has no attribute get''" "w0\<lparr>http_calls := 1\<rparr>"]
    aggregate_failure_no_score [of demo_env w0 acme _ _
      "[(''error'', JStr ''boom'')]"
      "acme\<lparr>raw_data := Some ''null'', status := Some ''assessed''\<rparr>" "JStr ''boom''"
      "acme\<lparr>raw_data := Some ''null'', status := Some ''assessed''\<rparr>" "[acme]"]
    broken_run persist_error_only
  by (simp add: is_number_def dict_get_def acme_def)

theorem json_repair_single_attempt_witness:
  "json_loads demo_env (clean_fences ''I'') =
     Inr (JObj [(''integration_readiness_score'', JFloat (Fin (1 / 2)))])
   \<and> fallback_to_json_conversion demo_env \<lparr>llm_calls = 5, http_calls = 5, commits = 0\<rparr> ''I'' =
       (Inr (JObj [(''integration_readiness_score'', JFloat (Fin (1 / 2)))]),
        \<lparr>llm_calls = 5, http_calls = 5, commits = 0\<rparr>)
   \<and> json_loads demo_env (clean_fences ''not json'') = Inl (JSONDecodeError ''Expecting value'')
   \<and> fallback_to_json_conversion demo_env \<lparr>llm_calls = 7, http_calls = 7, commits = 0\<rparr>
        ''not json'' =
       (Inr (JObj [(''score'', JFloat (Fin (3 / 4)))]),
        \<lparr>llm_calls = 8, http_calls = 7, commits = 0\<rparr>)
   \<and> fallback_to_json_conversion demo_env \<lparr>llm_calls = 9, http_calls = 8, commits = 0\<rparr>
        ''not json'' =
       (Inl (JSONDecodeError ''Expecting value''),
        \<lparr>llm_calls = 10, http_calls = 8, commits = 0\<rparr>)
   \<and> \<not> startswith (py_strip ''  E '') fence \<and> clean_fences ''  E '' = ''E''
   \<and> py_strip fenced_F = fence @ ''json\<newline>F\<newline>'' @ fence @ []
   \<and> CHR 0x60 \<notin> set ''json\<newline>F\<newline>'' \<and> clean_fences fenced_F = ''F''
   \<and> search_for_factor demo_env \<lparr>llm_calls = 8, http_calls = 7, commits = 0\<rparr> acme
        ''web_presence_quality'' 3 = (Inr [], \<lparr>llm_calls = 8, http_calls = 8, commits = 0\<rparr>)
   \<and> generate_json demo_env \<lparr>llm_calls = 8, http_calls = 8, commits = 0\<rparr>
        (build_factor_prompt demo_env acme ''web_presence_quality'' []) 800 =
        (Inl (JSONDecodeError ''Expecting value''),
         \<lparr>llm_calls = 10, http_calls = 8, commits = 0\<rparr>)
   \<and> assess_factor demo_env acme ''web_presence_quality'' empty_state
        \<lparr>llm_calls = 8, http_calls = 7, commits = 0\<rparr> =
        (Inr (empty_state\<lparr>raw_search_snippets := [(''web_presence_quality'', JList [])]\<rparr>),
         \<lparr>llm_calls = 10, http_calls = 8, commits = 0\<rparr>)"
proof -
  have l1: "json_loads demo_env (clean_fences ''I'') =
      Inr (JObj [(''integration_readiness_score'', JFloat (Fin (1 / 2)))])"
    by (simp add: clean_plain demo_env_sel demo_loads_def)
  from json_repair_single_attempt [of demo_env "''I''"
      "JObj [(''integration_readiness_score'', JFloat (Fin (1 / 2)))]"
      "\<lparr>llm_calls = 5, http_calls = 5, commits = 0\<rparr>"] l1
  have c1: "fallback_to_json_conversion demo_env \<lparr>llm_calls = 5, http_calls = 5, commits = 0\<rparr> ''I'' =
       (Inr (JObj [(''integration_readiness_score'', JFloat (Fin (1 / 2)))]),
        \<lparr>llm_calls = 5, http_calls = 5, commits = 0\<rparr>)"
    by blast
  have l2: "json_loads demo_env (clean_fences ''not json'') =
      Inl (JSONDecodeError ''Expecting value'')"
    by (simp add: clean_plain demo_env_sel demo_loads_def)
  from json_repair_single_attempt [of demo_env "''not json''" _
      "\<lparr>llm_calls = 7, http_calls = 7, commits = 0\<rparr>" "''Expecting value''"] l2
  have "fallback_to_json_conversion demo_env \<lparr>llm_calls = 7, http_calls = 7, commits = 0\<rparr>
        ''not json'' =
      (case bedrock_converse demo_env (llm_calls \<lparr>llm_calls = 7, http_calls = 7, commits = 0\<rparr>)
              (fixer_prompt (clean_fences ''not json'')) 3000 of
         Inl y \<Rightarrow> Inl y
       | Inr fixed \<Rightarrow> json_loads demo_env (clean_fences fixed),
       \<lparr>llm_calls = 7, http_calls = 7, commits = 0\<rparr>
         \<lparr>llm_calls := Suc (llm_calls \<lparr>llm_calls = 7, http_calls = 7, commits = 0\<rparr>)\<rparr>)"
    by blast
  then have c2: "fallback_to_json_conversion demo_env \<lparr>llm_calls = 7, http_calls = 7, commits = 0\<rparr>
        ''not json'' =
       (Inr (JObj [(''score'', JFloat (Fin (3 / 4)))]),
        \<lparr>llm_calls = 8, http_calls = 7, commits = 0\<rparr>)"
    by (simp add: demo_env_sel demo_text_def clean_fenced demo_loads_def)
  from json_repair_single_attempt [of demo_env "''not json''" _
      "\<lparr>llm_calls = 9, http_calls = 8, commits = 0\<rparr>" "''Expecting value''"] l2
  have "fallback_to_json_conversion demo_env \<lparr>llm_calls = 9, http_calls = 8, commits = 0\<rparr>
        ''not json'' =
      (case bedrock_converse demo_env (llm_calls \<lparr>llm_calls = 9, http_calls = 8, commits = 0\<rparr>)
              (fixer_prompt (clean_fences ''not json'')) 3000 of
         Inl y \<Rightarrow> Inl y
       | Inr fixed \<Rightarrow> json_loads demo_env (clean_fences fixed),
       \<lparr>llm_calls = 9, http_calls = 8, commits = 0\<rparr>
         \<lparr>llm_calls := Suc (llm_calls \<lparr>llm_calls = 9, http_calls = 8, commits = 0\<rparr>)\<rparr>)"
    by blast
  then have c3: "fallback_to_json_conversion demo_env \<lparr>llm_calls = 9, http_calls = 8, commits = 0\<rparr>
        ''not json'' =
       (Inl (JSONDecodeError ''Expecting value''),
        \<lparr>llm_calls = 10, http_calls = 8, commits = 0\<rparr>)"
    by (simp add: demo_env_sel demo_text_def clean_plain demo_loads_def)
  have l4: "\<not> startswith (py_strip ''  E '') fence"
    by (simp add: py_strip_def py_isspace_def startswith_def fence_def)
  from json_repair_single_attempt [of demo_env "''  E ''"] l4
  have "clean_fences ''  E '' = py_strip ''  E ''" by blast
  then have c4: "clean_fences ''  E '' = ''E''"
    by (simp add: py_strip_def py_isspace_def)
  have l5: "CHR 0x60 \<notin> set ''json\<newline>F\<newline>''" by simp
  from json_repair_single_attempt [where t = fenced_F and body = "''json\<newline>F\<newline>''"
      and rest = "[]"] strip_fenced_F l5
  have "clean_fences fenced_F =
      py_strip (if startswith ''json\<newline>F\<newline>'' ''json'' then drop 4 ''json\<newline>F\<newline>''
                else ''json\<newline>F\<newline>'')"
    by blast
  then have c5: "clean_fences fenced_F = ''F''"
    by (simp add: startswith_def py_strip_def py_isspace_def)
  have s1: "search_for_factor demo_env \<lparr>llm_calls = 8, http_calls = 7, commits = 0\<rparr> acme
        ''web_presence_quality'' 3 = (Inr [], \<lparr>llm_calls = 8, http_calls = 8, commits = 0\<rparr>)"
    by (simp add: demo_search demo_snippets_def)
  have g1: "generate_json demo_env \<lparr>llm_calls = 8, http_calls = 8, commits = 0\<rparr>
        (build_factor_prompt demo_env acme ''web_presence_quality'' []) 800 =
        (Inl (JSONDecodeError ''Expecting value''),
         \<lparr>llm_calls = 10, http_calls = 8, commits = 0\<rparr>)"
    by (simp add: demo_generate_json demo_parsed_def demo_calls_def)
  from json_repair_single_attempt [where e = demo_env and ld = acme
      and w = "\<lparr>llm_calls = 8, http_calls = 7, commits = 0\<rparr>"
      and f = "''web_presence_quality''" and sn = "[]"
      and ?w1.0 = "\<lparr>llm_calls = 8, http_calls = 8, commits = 0\<rparr>"
      and y = "JSONDecodeError ''Expecting value''"
      and ?w2.0 = "\<lparr>llm_calls = 10, http_calls = 8, commits = 0\<rparr>" and st = empty_state]
    s1 g1
  have "assess_factor demo_env acme ''web_presence_quality'' empty_state
        \<lparr>llm_calls = 8, http_calls = 7, commits = 0\<rparr> =
      (Inr (empty_state\<lparr>raw_search_snippets :=
              dict_set (raw_search_snippets empty_state) ''web_presence_quality'' (JList [])\<rparr>),
       \<lparr>llm_calls = 10, http_calls = 8, commits = 0\<rparr>)"
    by blast
  then have c6: "assess_factor demo_env acme ''web_presence_quality'' empty_state
        \<lparr>llm_calls = 8, http_calls = 7, commits = 0\<rparr> =
        (Inr (empty_state\<lparr>raw_search_snippets := [(''web_presence_quality'', JList [])]\<rparr>),
         \<lparr>llm_calls = 10, http_calls = 8, commits = 0\<rparr>)"
    by (simp add: empty_state_def)
  from l1 c1 l2 c2 c3 l4 c4 strip_fenced_F l5 c5 s1 g1 c6 show ?thesis by blast
qed

theorem persisted_lead_not_retried_witness:
  "persist_try demo_env acme [(''error'', JStr ''boom'')] =
     Inr (acme\<lparr>raw_data := Some ''null'', status := Some ''assessed''\<rparr>)
   \<and> session_commit demo_env (commits w0) = None
   \<and> query_unassessed [acme] None = [acme]
   \<and> fst (persist_assessment demo_env w0 [acme] acme [(''error'', JStr ''boom'')]) =
       [acme\<lparr>raw_data := Some ''null'', status := Some ''assessed''\<rparr>]
   \<and> query_unassessed [acme\<lparr>raw_data := Some ''null'', status := Some ''assessed''\<rparr>] None = []
   \<and> fst (assess_all_leads demo_env w0
        [acme\<lparr>raw_data := Some ''null'', status := Some ''assessed''\<rparr>] None) = []"
proof -
  have store: "db_store (acme\<lparr>raw_data := Some ''null'', status := Some ''assessed''\<rparr>) [acme] =
      [acme\<lparr>raw_data := Some ''null'', status := Some ''assessed''\<rparr>]"
    by (simp add: db_store_def)
  from persisted_lead_not_retried [OF persist_error_only demo_commit, of "[acme]" None demo_env w0]
  have stored: "fst (persist_assessment demo_env w0 [acme] acme [(''error'', JStr ''boom'')]) =
      [acme\<lparr>raw_data := Some ''null'', status := Some ''assessed''\<rparr>]"
    and none: "\<forall>r \<in> set (query_unassessed
        [acme\<lparr>raw_data := Some ''null'', status := Some ''assessed''\<rparr>] None).
        lead_id r \<noteq> lead_id acme"
    by (simp_all add: store)
  have sub: "set (query_unassessed [acme\<lparr>raw_data := Some ''null'', status := Some ''assessed''\<rparr>] None)
      \<subseteq> {acme\<lparr>raw_data := Some ''null'', status := Some ''assessed''\<rparr>}"
    by (simp add: query_unassessed_def)
  have empty: "query_unassessed [acme\<lparr>raw_data := Some ''null'', status := Some ''assessed''\<rparr>] None = []"
  proof (rule ccontr)
    assume "query_unassessed [acme\<lparr>raw_data := Some ''null'', status := Some ''assessed''\<rparr>] None \<noteq> []"
    then obtain r where
      r: "r \<in> set (query_unassessed [acme\<lparr>raw_data := Some ''null'', status := Some ''assessed''\<rparr>] None)"
      by (meson hd_in_set)
    with sub have "r = acme\<lparr>raw_data := Some ''null'', status := Some ''assessed''\<rparr>" by auto
    with none r show False by auto
  qed
  then have "fst (assess_all_leads demo_env w0
        [acme\<lparr>raw_data := Some ''null'', status := Some ''assessed''\<rparr>] None) = []"
    by (simp add: assess_all_leads_def)
  with persist_error_only demo_commit acme_unassessed stored empty show ?thesis by simp
qed

theorem search_total_bounded_witness:
  "requests_post demo_env (http_calls w0) ''acme'' 3 = Inl (OtherError ''connection refused'')
   \<and> fst (SerperClient_search demo_env w0 ''acme'' 3) = JList []
   \<and> status_code \<lparr>status_code = 500, json_body = Inr JNull\<rparr> = 500
   \<and> fst (SerperClient_search demo_env (w0\<lparr>http_calls := 1\<rparr>) ''acme'' 3) = JList []
   \<and> fst (SerperClient_search demo_env (w0\<lparr>http_calls := 2\<rparr>) ''acme'' 3) = JList []
   \<and> fst (SerperClient_search listing_env w0 ''acme'' 2) = JList [pricing_result, JObj []]
   \<and> (0 :: int) \<le> 2
   \<and> json_len (fst (SerperClient_search listing_env w0 ''acme'' 2)) = Some 2
   \<and> http_calls (snd (SerperClient_search listing_env w0 ''acme'' 2)) = 1"
proof -
  have p0: "requests_post demo_env (http_calls w0) ''acme'' 3 = Inl (OtherError ''connection refused'')"
    by (simp add: demo_env_def demo_post_def w0_def)
  from search_total_bounded [of demo_env w0 "''acme''" 3 "OtherError ''connection refused''"] p0
  have c0: "fst (SerperClient_search demo_env w0 ''acme'' 3) = JList []" by blast
  have p1: "requests_post demo_env (http_calls (w0\<lparr>http_calls := 1\<rparr>)) ''acme'' 3 =
      Inr \<lparr>status_code = 500, json_body = Inr JNull\<rparr>"
    by (simp add: demo_env_def demo_post_def)
  from search_total_bounded [of demo_env "w0\<lparr>http_calls := 1\<rparr>" "''acme''" 3 _
      "\<lparr>status_code = 500, json_body = Inr JNull\<rparr>"] p1
  have c1: "fst (SerperClient_search demo_env (w0\<lparr>http_calls := 1\<rparr>) ''acme'' 3) = JList []"
    by simp
  have p2: "requests_post demo_env (http_calls (w0\<lparr>http_calls := 2\<rparr>)) ''acme'' 3 =
      Inr \<lparr>status_code = 200, json_body = Inl (JSONDecodeError ''Expecting value'')\<rparr>"
    by (simp add: demo_env_def demo_post_def)
  from search_total_bounded [of demo_env "w0\<lparr>http_calls := 2\<rparr>" "''acme''" 3 _
      "\<lparr>status_code = 200, json_body = Inl (JSONDecodeError ''Expecting value'')\<rparr>"
      "JSONDecodeError ''Expecting value''"] p2
  have c2: "fst (SerperClient_search demo_env (w0\<lparr>http_calls := 2\<rparr>) ''acme'' 3) = JList []"
    by simp
  have p3: "requests_post listing_env (http_calls w0) ''acme'' 2 =
      Inr \<lparr>status_code = 200,
           json_body = Inr (JObj [(''organic'',
             JList [pricing_result, JObj [], JObj [(''url'', JStr ''acme.io'')]])])\<rparr>"
    by (simp add: listing_env_def)
  from search_total_bounded [of listing_env w0 "''acme''" 2 _
      "\<lparr>status_code = 200,
           json_body = Inr (JObj [(''organic'',
             JList [pricing_result, JObj [], JObj [(''url'', JStr ''acme.io'')]])])\<rparr>" _
      "[(''organic'', JList [pricing_result, JObj [], JObj [(''url'', JStr ''acme.io'')]])]"
      "[pricing_result, JObj [], JObj [(''url'', JStr ''acme.io'')]]"] p3
  have c3: "fst (SerperClient_search listing_env w0 ''acme'' 2) = JList [pricing_result, JObj []]"
    and c4: "http_calls (snd (SerperClient_search listing_env w0 ''acme'' 2)) = 1"
    by (simp_all add: dict_get_def py_or_def slice_to_def w0_def)
  from c3 have c5: "json_len (fst (SerperClient_search listing_env w0 ''acme'' 2)) = Some 2"
    by (simp add: json_len_def)
  from p0 c0 c1 c2 c3 c4 c5 show ?thesis by simp
qed

text \<open>
  Claim C1, on the sample run. The completion for \<open>fraud_risk_pattern_score\<close> has the
  value 0 under \<open>value\<close> and a quarter under \<open>score\<close>: the first of the four keys that
  is not null is \<open>value\<close>, and the assessment stores the quarter. The completion for
  \<open>traffic_check\<close> has only the value 0 under \<open>value\<close>: the assessment stores nothing
  for the factor.
\<close>

theorem fallback_keys_skip_zero:
  "fst (generate_json demo_env \<lparr>llm_calls = 10, http_calls = 9, commits = 0\<rparr>
        (build_factor_prompt demo_env acme ''fraud_risk_pattern_score'' []) 800) =
     Inr (JObj [(''value'', JInt 0), (''score'', JFloat (Fin (1 / 4)))])
   \<and> extract_value [(''value'', JInt 0), (''score'', JFloat (Fin (1 / 4)))]
        ''fraud_risk_pattern_score'' = JFloat (Fin (1 / 4))
   \<and> dict_get (fst (assess_lead demo_env w0 acme)) ''fraud_risk_pattern_score'' =
        JFloat (Fin (1 / 4))
   \<and> fst (generate_json demo_env \<lparr>llm_calls = 11, http_calls = 10, commits = 0\<rparr>
        (build_factor_prompt demo_env acme ''traffic_check'' []) 800) =
       Inr (JObj [(''value'', JInt 0)])
   \<and> extract_value [(''value'', JInt 0)] ''traffic_check'' = JNull
   \<and> \<not> dict_has (fst (assess_lead demo_env w0 acme)) ''traffic_check''"
  by (simp add: demo_generate_json demo_parsed_def demo_text_def demo_loads_def
      extract_value_def dict_get_def py_or_def assess_lead_def demo_run demo_assessment_def
      dict_has_def)

text \<open>
  Claim C2, amended. No completion supplies the returned \<open>lead_score\<close>: recording a
  completion changes the assessment under the key of its factor only, the assessment
  after the loop has no \<open>lead_score\<close> key, and the returned \<open>lead_score\<close> is always the
  one computed from the normalised scores.
\<close>

theorem lead_score_always_computed:
  assumes "assess_factors e ld FACTOR_KEYS empty_state w = (Inr st, w1)"
  shows "(\<forall>st0 f res k. k \<noteq> f \<longrightarrow>
            dict_get (assessment (record_factor st0 f res)) k = dict_get (assessment st0) k)
     \<and> \<not> dict_has (assessment st) ''lead_score''
     \<and> assess_lead e w ld = (finish_assessment e st, w1)
     \<and> dict_get (fst (assess_lead e w ld)) ''lead_score'' =
         JInt (lead_score_of e (normalized_scores e (assessment st)))"
proof -
  have no: "\<not> dict_has (assessment st) ''lead_score''"
    using assms by (rule loop_no_lead_score)
  have run: "assess_lead e w ld = (finish_assessment e st, w1)"
    using assms by (simp add: assess_lead_def assess_lead_try_def)
  from no have "dict_get (finish_assessment e st) ''lead_score'' =
      JInt (lead_score_of e (normalized_scores e (assessment st)))"
    by (rule finish_lead_score)
  with no run record_factor_other show ?thesis by simp
qed

theorem lead_score_always_computed_witness:
  "assess_factors demo_env acme FACTOR_KEYS empty_state w0 = (Inr demo_state, demo_world)
   \<and> dict_get (assessment (record_factor empty_state ''tech_stack''
        (JObj [(''tech_stack'', JStr ''Shopify''), (''lead_score'', JInt 150)]))) ''lead_score'' = JNull
   \<and> \<not> dict_has (assessment demo_state) ''lead_score''
   \<and> dict_get (fst (assess_lead demo_env w0 acme)) ''lead_score'' =
       JInt (lead_score_of demo_env [Fin (1 / 2), Fin 1, Fin (3 / 4), Fin (1 / 4)])
   \<and> lead_score_of demo_env [Fin (1 / 2), Fin 1, Fin (3 / 4), Fin (1 / 4)] = 62"
proof -
  have ns: "normalized_scores demo_env (assessment demo_state) =
       [Fin (1 / 2), Fin 1, Fin (3 / 4), Fin (1 / 4)]"
    by (simp add: normalized_scores_def clamped_score_def SCORE_KEYS_def py_float_def
        demo_env_def py_max_def py_min_def dict_get_def demo_state_def List.map_filter_def)
  have v: "lead_score_of demo_env [Fin (1 / 2), Fin 1, Fin (3 / 4), Fin (1 / 4)] = 62"
    by (simp add: lead_score_of_def demo_env_def py_round_def)
  have e: "dict_get (assessment empty_state) ''lead_score'' = JNull"
    by (simp add: empty_state_def dict_get_def)
  from lead_score_always_computed [OF demo_loop] demo_loop ns v e show ?thesis
    by auto
qed

theorem supplied_lead_score_counterexample:
  "fst (generate_json demo_env w0 (build_factor_prompt demo_env acme ''tech_stack'' []) 800) =
     Inr (JObj [(''tech_stack'', JStr ''Shopify''), (''lead_score'', JInt 150),
                (''rationale'', JStr ''built on Shopify'')])
   \<and> dict_get (fst (assess_lead demo_env w0 acme)) ''tech_stack'' = JStr ''Shopify''
   \<and> dict_get (fst (assess_lead demo_env w0 acme)) ''lead_score'' = JInt 62
   \<and> dict_get (fst (assess_lead demo_env w0 acme)) ''lead_score'' \<noteq> JInt 150"
proof -
  have "llm_calls w0 = 0" by (simp add: w0_def)
  then have "fst (generate_json demo_env w0 (build_factor_prompt demo_env acme ''tech_stack'' []) 800) =
     Inr (JObj [(''tech_stack'', JStr ''Shopify''), (''lead_score'', JInt 150),
                (''rationale'', JStr ''built on Shopify'')])"
    by (simp add: demo_generate_json demo_parsed_def demo_text_def demo_loads_def)
  moreover have "assess_lead demo_env w0 acme = (demo_assessment, demo_world)"
    by (simp add: assess_lead_def demo_run)
  ultimately show ?thesis
    by (simp add: dict_get_def demo_assessment_def)
qed

end
